theory Spec2Isabelle
  imports Main
begin

section \<open>Python values and exceptions\<close>

text \<open>
  The payloads of \<^verbatim>\<open>tmdb.py\<close> are whatever \<^verbatim>\<open>response.json()\<close> decodes: untyped
  Python values. \<open>JNull\<close> is \<^verbatim>\<open>None\<close>. A float is carried by its \<^verbatim>\<open>repr\<close> (the
  program only tests floats for truth and prints them). \<open>JObj\<close> lists the items of a
  dict in insertion order; a decoded dict has no key twice. A string is the list of its
  code points, and a \<open>char\<close> is one code point below 256 (not a byte of an encoding): the
  texts here are those of ASCII and Latin-1, and the classes of characters that \<^verbatim>\<open>repr\<close>,
  \<^verbatim>\<open>str.isalnum\<close> and \<^verbatim>\<open>str.strip\<close> consult are written out for all 256 of them.
\<close>

datatype json =
    JNull
  | JBool bool
  | JInt int
  | JFloat string
  | JStr string
  | JArr "json list"
  | JObj "(string \<times> json) list"

text \<open>
  Every \<^verbatim>\<open>raise\<close> of the source is a value. \<open>ClientError\<close> is \<^verbatim>\<open>aiohttp.ClientError\<close>
  (a request that failed in transport, a body that is not JSON); \<open>OtherError\<close> is any
  other exception of a collaborator (a timeout, an \<^verbatim>\<open>IMDbError\<close>).
\<close>

datatype error =
    ClientError
  | AttributeError
  | KeyError
  | TypeError
  | IndexError
  | ValueError
  | OverflowError
  | OtherError

definition bindr :: "error + 'a \<Rightarrow> ('a \<Rightarrow> error + 'b) \<Rightarrow> error + 'b" where
  "bindr m f = (case m of Inl e \<Rightarrow> Inl e | Inr x \<Rightarrow> f x)"

text \<open>A comprehension or a \<^verbatim>\<open>for\<close> loop whose body may raise: the first exception ends it.\<close>

primrec mapM :: "('a \<Rightarrow> error + 'b) \<Rightarrow> 'a list \<Rightarrow> error + 'b list" where
  "mapM f [] = Inr []"
| "mapM f (x # xs) =
     (case f x of
        Inl e \<Rightarrow> Inl e
      | Inr y \<Rightarrow> (case mapM f xs of Inl e \<Rightarrow> Inl e | Inr ys \<Rightarrow> Inr (y # ys)))"

subsection \<open>Truth, \<^verbatim>\<open>str\<close> and \<^verbatim>\<open>repr\<close>\<close>

fun truthy :: "json \<Rightarrow> bool" where
  "truthy JNull = False"
| "truthy (JBool b) = b"
| "truthy (JInt i) = (i \<noteq> 0)"
| "truthy (JFloat r) = (r \<noteq> ''0.0'' \<and> r \<noteq> ''-0.0'')"
| "truthy (JStr s) = (s \<noteq> [])"
| "truthy (JArr xs) = (xs \<noteq> [])"
| "truthy (JObj kvs) = (kvs \<noteq> [])"

definition digit_char :: "nat \<Rightarrow> char" where
  "digit_char d = ''0123456789abcdef'' ! d"

fun str_nat :: "nat \<Rightarrow> string" where
  "str_nat n = (if n < 10 then [digit_char n] else str_nat (n div 10) @ [digit_char (n mod 10)])"

definition str_int :: "int \<Rightarrow> string" where
  "str_int i = (if i < 0 then CHR ''-'' # str_nat (nat (- i)) else str_nat (nat i))"

text \<open>The join of \<^verbatim>\<open>sep.join(parts)\<close> on strings.\<close>

fun join :: "string \<Rightarrow> string list \<Rightarrow> string" where
  "join sep [] = []"
| "join sep [x] = x"
| "join sep (x # y # ys) = x @ sep @ join sep (y # ys)"

text \<open>
  \<^verbatim>\<open>repr\<close> of a string: single quotes, unless the text has a single quote and no
  double quote; the quote and the backslash escaped, and the characters that are not
  printable (0 to 31, 127 to 160, 173) as \<^verbatim>\<open>\t \n \r \xNN\<close>.
\<close>

definition repr_char :: "char \<Rightarrow> char \<Rightarrow> string" where
  "repr_char q c =
     (if c = q \<or> c = CHR 0x5C then [CHR 0x5C, c]
      else if c = CHR 0x09 then [CHR 0x5C, CHR ''t'']
      else if c = CHR 0x0A then [CHR 0x5C, CHR ''n'']
      else if c = CHR 0x0D then [CHR 0x5C, CHR ''r'']
      else if of_char c < (32 :: nat) \<or> (127 \<le> (of_char c :: nat) \<and> of_char c \<le> (160 :: nat))
              \<or> c = CHR 0xAD
        then [CHR 0x5C, CHR ''x'', digit_char (of_char c div 16), digit_char (of_char c mod 16)]
      else [c])"

definition repr_str :: "string \<Rightarrow> string" where
  "repr_str s =
     (let q = (if CHR 0x27 \<in> set s \<and> CHR 0x22 \<notin> set s then CHR 0x22 else CHR 0x27)
      in [q] @ concat (map (repr_char q) s) @ [q])"

fun py_repr :: "json \<Rightarrow> string" where
  "py_repr JNull = ''None''"
| "py_repr (JBool b) = (if b then ''True'' else ''False'')"
| "py_repr (JInt i) = str_int i"
| "py_repr (JFloat r) = r"
| "py_repr (JStr s) = repr_str s"
| "py_repr (JArr xs) = ''['' @ join '', '' (map py_repr xs) @ '']''"
| "py_repr (JObj kvs) =
     ''{'' @ join '', '' (map (\<lambda>kv. repr_str (fst kv) @ '': '' @ py_repr (snd kv)) kvs) @ ''}''"

text \<open>\<^verbatim>\<open>str(v)\<close>, which is also what an f-string field \<^verbatim>\<open>{v}\<close> prints.\<close>

definition py_str :: "json \<Rightarrow> string" where
  "py_str v = (case v of JStr s \<Rightarrow> s | _ \<Rightarrow> py_repr v)"

subsection \<open>Operations on untyped values\<close>

text \<open>\<^verbatim>\<open>d.get(k, default)\<close>; only a dict has the method. \<^verbatim>\<open>d.get(k)\<close> has default \<^verbatim>\<open>None\<close>.\<close>

fun py_get :: "json \<Rightarrow> string \<Rightarrow> json \<Rightarrow> error + json" where
  "py_get (JObj kvs) k d = Inr (case map_of kvs k of None \<Rightarrow> d | Some v \<Rightarrow> v)"
| "py_get _ k d = Inl AttributeError"

text \<open>\<^verbatim>\<open>d[k]\<close> with a string key: a missing key raises, and so does any value but a dict.\<close>

fun py_item :: "json \<Rightarrow> string \<Rightarrow> error + json" where
  "py_item (JObj kvs) k = (case map_of kvs k of None \<Rightarrow> Inl KeyError | Some v \<Rightarrow> Inr v)"
| "py_item _ k = Inl TypeError"

text \<open>\<^verbatim>\<open>v[0]\<close>: the first element of a list, the first character of a string.\<close>

fun py_first :: "json \<Rightarrow> error + json" where
  "py_first (JArr xs) = (case xs of [] \<Rightarrow> Inl IndexError | x # _ \<Rightarrow> Inr x)"
| "py_first (JStr s) = (case s of [] \<Rightarrow> Inl IndexError | c # _ \<Rightarrow> Inr (JStr [c]))"
| "py_first (JObj kvs) = Inl KeyError"
| "py_first _ = Inl TypeError"

text \<open>\<^verbatim>\<open>v[:n]\<close>: lists and strings have slices (slicing a dict raises, a \<^verbatim>\<open>KeyError\<close> from Python 3.12 on).\<close>

fun py_slice :: "nat \<Rightarrow> json \<Rightarrow> error + json" where
  "py_slice n (JArr xs) = Inr (JArr (take n xs))"
| "py_slice n (JStr s) = Inr (JStr (take n s))"
| "py_slice n _ = Inl TypeError"

text \<open>What a \<^verbatim>\<open>for\<close> loop sees: the elements of a list, the keys of a dict, the characters of a string.\<close>

fun py_iter :: "json \<Rightarrow> error + json list" where
  "py_iter (JArr xs) = Inr xs"
| "py_iter (JObj kvs) = Inr (map (\<lambda>kv. JStr (fst kv)) kvs)"
| "py_iter (JStr s) = Inr (map (\<lambda>c. JStr [c]) s)"
| "py_iter _ = Inl TypeError"

fun starts_with :: "string \<Rightarrow> string \<Rightarrow> bool" where
  "starts_with [] s = True"
| "starts_with (p # ps) [] = False"
| "starts_with (p # ps) (c # cs) = (p = c \<and> starts_with ps cs)"

fun contains_sub :: "string \<Rightarrow> string \<Rightarrow> bool" where
  "contains_sub p [] = (p = [])"
| "contains_sub p (c # cs) = (starts_with p (c # cs) \<or> contains_sub p cs)"

text \<open>\<^verbatim>\<open>k in v\<close> for a string \<open>k\<close>: a key of a dict, an element of a list, a substring of a string.\<close>

fun py_in :: "string \<Rightarrow> json \<Rightarrow> error + bool" where
  "py_in k (JObj kvs) = Inr (k \<in> fst ` set kvs)"
| "py_in k (JArr xs) = Inr (JStr k \<in> set xs)"
| "py_in k (JStr s) = Inr (contains_sub k s)"
| "py_in k _ = Inl TypeError"

text \<open>\<^verbatim>\<open>sep.join(parts)\<close> on values: every part must be a string.\<close>

fun the_str :: "json \<Rightarrow> error + string" where
  "the_str (JStr s) = Inr s"
| "the_str _ = Inl TypeError"

definition py_join :: "string \<Rightarrow> json list \<Rightarrow> error + string" where
  "py_join sep parts = bindr (mapM the_str parts) (\<lambda>ss. Inr (join sep ss))"

subsection \<open>String methods\<close>

text \<open>
  The characters \<^verbatim>\<open>str.strip()\<close> removes, those of \<^verbatim>\<open>str.isspace\<close>: tab to carriage return,
  the four separators and the space (9 to 13, 28 to 32), the next-line control (133) and the
  no-break space (160).
\<close>

definition is_space :: "char \<Rightarrow> bool" where
  "is_space c = (let n = (of_char c :: nat) in
     (9 \<le> n \<and> n \<le> 13) \<or> (28 \<le> n \<and> n \<le> 32) \<or> n = 133 \<or> n = 160)"

definition strip :: "string \<Rightarrow> string" where
  "strip s = rev (dropWhile is_space (rev (dropWhile is_space s)))"

definition isalnum :: "char \<Rightarrow> bool" where
  "isalnum c = (let n = (of_char c :: nat) in
     (48 \<le> n \<and> n \<le> 57) \<or> (65 \<le> n \<and> n \<le> 90) \<or> (97 \<le> n \<and> n \<le> 122)
     \<or> n = 170 \<or> n = 178 \<or> n = 179 \<or> n = 181 \<or> n = 185 \<or> n = 186
     \<or> (188 \<le> n \<and> n \<le> 190) \<or> (192 \<le> n \<and> n \<le> 214) \<or> (216 \<le> n \<and> n \<le> 246)
     \<or> 248 \<le> n)"

text \<open>\<^verbatim>\<open>s.split(c)\<close> for a one-character separator: never empty, one more part than separators.\<close>

fun split_on :: "char \<Rightarrow> string \<Rightarrow> string list" where
  "split_on c [] = [[]]"
| "split_on c (x # xs) =
     (if x = c then [] # split_on c xs
      else (case split_on c xs of [] \<Rightarrow> [[x]] | p # ps \<Rightarrow> (x # p) # ps))"

text \<open>\<^verbatim>\<open>s.split('::')\<close>: the parts between the occurrences of the two-character separator, left to right.\<close>

fun split_dcolon :: "string \<Rightarrow> string list" where
  "split_dcolon (a # b # s) =
     (if a = CHR '':'' \<and> b = CHR '':'' then [] # split_dcolon s
      else (case split_dcolon (b # s) of [] \<Rightarrow> [[a]] | p # ps \<Rightarrow> (a # p) # ps))"
| "split_dcolon s = [s]"

text \<open>\<^verbatim>\<open>s.replace('tt', '')\<close>: every occurrence, left to right, without overlap.\<close>

fun remove_tt :: "string \<Rightarrow> string" where
  "remove_tt (a # b # s) =
     (if a = CHR ''t'' \<and> b = CHR ''t'' then remove_tt s else a # remove_tt (b # s))"
| "remove_tt s = s"

section \<open>Field extractors\<close>

definition POSTER_BASE_URL :: string where
  "POSTER_BASE_URL = ''https://image.tmdb.org/t/p/original''"

definition PROFILE_BASE_URL :: string where
  "PROFILE_BASE_URL = ''https://image.tmdb.org/t/p/w500''"

definition profile_url :: "json \<Rightarrow> json" where
  "profile_url path = (if truthy path then JStr (PROFILE_BASE_URL @ py_str path) else JNull)"

definition extract_language :: "json \<Rightarrow> error + string" where
  "extract_language data =
     bindr (py_get data ''spoken_languages'' (JArr [])) (\<lambda>spoken_languages.
       if truthy spoken_languages then
         bindr (py_iter spoken_languages) (\<lambda>langs.
         bindr (mapM (\<lambda>lang. py_get lang ''english_name'' (JStr ''Unknown'')) langs) (\<lambda>names.
         py_join '', '' names))
       else Inr ''Unknown'')"

text \<open>
  The body of the loop of \<^verbatim>\<open>extract_genres\<close>, for one entry of \<^verbatim>\<open>genres\<close>: the entries it
  adds to the result. \<^verbatim>\<open>genre['name']\<close> is an index, not a \<^verbatim>\<open>get\<close>; \<^verbatim>\<open>split\<close> is a method
  of strings only.
\<close>

definition genre_entries :: "json \<Rightarrow> error + json list" where
  "genre_entries genre =
     bindr (py_item genre ''name'') (\<lambda>name.
     bindr (py_in ''&'' name) (\<lambda>has_amp.
       if has_amp then
         (case name of
            JStr s \<Rightarrow> Inr (map (\<lambda>g. JStr (strip g)) (split_on CHR ''&'' s))
          | _ \<Rightarrow> Inl AttributeError)
       else Inr [name]))"

definition extract_genres :: "json \<Rightarrow> error + json list" where
  "extract_genres data =
     bindr (py_get data ''genres'' (JArr [])) (\<lambda>gs.
     bindr (py_iter gs) (\<lambda>entries.
     bindr (mapM genre_entries entries) (\<lambda>parts.
     Inr (concat parts))))"

definition extract_release_date :: "json \<Rightarrow> error + json" where
  "extract_release_date data =
     bindr (py_get data ''release_date'' JNull) (\<lambda>release_date.
       if truthy release_date then Inr release_date
       else py_get data ''first_air_date'' (JStr []))"

text \<open>The dict \<^verbatim>\<open>{"name": ..., "profile_path": ...}\<close> built for a director or a star.\<close>

record person =
  person_name :: json
  person_profile_path :: json

definition person_of :: "json \<Rightarrow> error + person" where
  "person_of member =
     bindr (py_get member ''name'' JNull) (\<lambda>name.
     bindr (py_get member ''profile_path'' JNull) (\<lambda>path.
     Inr \<lparr>person_name = name, person_profile_path = profile_url path\<rparr>))"

definition director_of :: "json \<Rightarrow> error + person list" where
  "director_of member =
     bindr (py_get member ''job'' JNull) (\<lambda>job.
       if job = JStr ''Director'' then bindr (person_of member) (\<lambda>p. Inr [p])
       else Inr [])"

definition extract_directors :: "string \<Rightarrow> json \<Rightarrow> json \<Rightarrow> error + person list" where
  "extract_directors tmdb_type data credits =
     (if tmdb_type = ''movie'' then
        bindr (py_get credits ''crew'' (JArr [])) (\<lambda>crew.
        bindr (py_iter crew) (\<lambda>members.
        bindr (mapM director_of members) (\<lambda>ds.
        Inr (concat ds))))
      else if tmdb_type = ''tv'' then
        bindr (py_get data ''created_by'' (JArr [])) (\<lambda>created_by.
        bindr (py_iter created_by) (\<lambda>creators.
        mapM person_of creators))
      else Inr [])"

definition extract_stars :: "json \<Rightarrow> error + person list" where
  "extract_stars credits =
     bindr (py_get credits ''cast'' (JArr [])) (\<lambda>cast_list.
       if \<not> truthy cast_list then Inr []
       else
         bindr (py_slice 5 cast_list) (\<lambda>firsts.
         bindr (py_iter firsts) (\<lambda>members.
         mapM person_of members)))"

definition get_poster_url :: "json \<Rightarrow> error + json" where
  "get_poster_url data =
     bindr (py_get data ''poster_path'' JNull) (\<lambda>poster_path.
     Inr (if truthy poster_path then JStr (POSTER_BASE_URL @ py_str poster_path) else JNull))"

text \<open>The loop of \<^verbatim>\<open>get_backdrop_url\<close> over the keys still to try.\<close>

fun backdrop_from :: "json \<Rightarrow> string list \<Rightarrow> error + json" where
  "backdrop_from movie_images [] = Inr JNull"
| "backdrop_from movie_images (key # keys) =
     bindr (py_in key movie_images) (\<lambda>present.
       if \<not> present then backdrop_from movie_images keys
       else
         bindr (py_item movie_images key) (\<lambda>images.
           if \<not> truthy images then backdrop_from movie_images keys
           else
             bindr (py_first images) (\<lambda>image.
             bindr (py_get image ''file_path'' JNull) (\<lambda>path.
               if truthy path then Inr (JStr (POSTER_BASE_URL @ py_str path))
               else backdrop_from movie_images keys))))"

definition get_backdrop_url :: "json \<Rightarrow> error + json" where
  "get_backdrop_url movie_images = backdrop_from movie_images [''backdrops'', ''posters'']"

section \<open>The message formatter\<close>

definition nl2 :: string where
  "nl2 = [CHR 0x0A, CHR 0x0A]"

text \<open>The format \<^verbatim>\<open>{n:02d}\<close>: at least two characters, padded with zeros, the sign counted.\<close>

definition fmt_02d :: "int \<Rightarrow> string" where
  "fmt_02d n = (if 0 \<le> n \<and> n < 10 then CHR ''0'' # str_int n else str_int n)"

text \<open>\<^verbatim>\<open>data.get(k, '')[:4] if data.get(k) else ''\<close>\<close>

definition year_field :: "json \<Rightarrow> string \<Rightarrow> error + json" where
  "year_field data k =
     bindr (py_get data k JNull) (\<lambda>d.
       if truthy d then bindr (py_get data k (JStr [])) (py_slice 4)
       else Inr (JStr []))"

text \<open>\<^verbatim>\<open>season\<close> and \<^verbatim>\<open>episode\<close> are \<^verbatim>\<open>None\<close> or an integer; \<^verbatim>\<open>if season\<close> holds for a non-zero one.\<close>

definition given :: "int option \<Rightarrow> bool" where
  "given n = (case n of None \<Rightarrow> False | Some k \<Rightarrow> k \<noteq> 0)"

definition num :: "int option \<Rightarrow> int" where
  "num n = (case n of None \<Rightarrow> 0 | Some k \<Rightarrow> k)"

definition tv_header :: "string \<Rightarrow> string \<Rightarrow> int option \<Rightarrow> int option \<Rightarrow> string" where
  "tv_header title year season episode =
     (if given season \<and> given episode then
        (if season = Some 1 \<and> episode = Some 1 then
           ''<b>'' @ title @ '' ('' @ year @ '') S'' @ fmt_02d (num season) @ ''E''
             @ fmt_02d (num episode) @ ''</b> is now available!''
         else
           ''<b>'' @ title @ '' S'' @ fmt_02d (num season) @ ''E''
             @ fmt_02d (num episode) @ ''</b> is now available!'')
      else if given season then
        (if season = Some 1 then
           ''<b>'' @ title @ '' ('' @ year @ '') Season '' @ str_int (num season)
             @ ''</b> is now available!''
         else
           ''<b>'' @ title @ '' Season '' @ str_int (num season) @ ''</b> is now available!'')
      else ''<b>'' @ title @ ''</b> is now available!'')"

definition header_of :: "string \<Rightarrow> int option \<Rightarrow> int option \<Rightarrow> json \<Rightarrow> error + string" where
  "header_of tmdb_type season episode data =
     (if tmdb_type = ''movie'' then
        bindr (py_get data ''title'' (JStr [])) (\<lambda>title.
        bindr (year_field data ''release_date'') (\<lambda>year.
        Inr (''<b>'' @ py_str title @ '' ('' @ py_str year @ '')</b> is now available!'')))
      else if tmdb_type = ''tv'' then
        bindr (py_get data ''name'' (JStr [])) (\<lambda>title.
        bindr (year_field data ''first_air_date'') (\<lambda>year.
        Inr (tv_header (py_str title) (py_str year) season episode)))
      else Inr ''Now Available!'')"

text \<open>
  \<^verbatim>\<open>'#' + ''.join(c for c in g if c.isalnum())\<close>. For a string \<open>g\<close> the loop runs over its
  characters; for a list or a dict it runs over the elements or keys, and \<^verbatim>\<open>isalnum\<close> is
  then the method of a whole string (non-empty, every character alphanumeric).
\<close>

definition str_isalnum :: "string \<Rightarrow> bool" where
  "str_isalnum t = (t \<noteq> [] \<and> list_all isalnum t)"

definition kept :: "json \<Rightarrow> error + string" where
  "kept c = (case c of JStr t \<Rightarrow> Inr (if str_isalnum t then t else []) | _ \<Rightarrow> Inl AttributeError)"

definition genre_tag :: "json \<Rightarrow> error + string" where
  "genre_tag g =
     bindr (py_iter g) (\<lambda>cs.
     bindr (mapM kept cs) (\<lambda>parts.
     Inr (CHR ''#'' # concat parts)))"

definition genre_tags :: "json \<Rightarrow> error + string" where
  "genre_tags data =
     bindr (py_get data ''genres'' (JArr [])) (\<lambda>gs.
     bindr (py_iter gs) (\<lambda>entries.
     bindr (mapM (\<lambda>g. py_item g ''name'') entries) (\<lambda>genres.
     bindr (mapM genre_tag genres) (\<lambda>genres_clean.
     Inr (join '' '' genres_clean)))))"

definition later_episode :: "int option \<Rightarrow> int option \<Rightarrow> bool" where
  "later_episode season episode =
     ((given season \<and> 1 < num season) \<or> (given episode \<and> 1 < num episode))"

definition format_tmdb_info ::
  "string \<Rightarrow> int option \<Rightarrow> int option \<Rightarrow> string \<Rightarrow> string \<Rightarrow> json \<Rightarrow> json \<Rightarrow> error + string" where
  "format_tmdb_info tmdb_type season episode directors_str stars_str data plot =
     bindr (header_of tmdb_type season episode data) (\<lambda>header.
     bindr (genre_tags data) (\<lambda>genres_str.
       if later_episode season episode then Inr (strip (header @ nl2 @ genres_str))
       else
         Inr (strip
           (header @ nl2
            @ (if truthy plot then py_str plot @ nl2 else [])
            @ (if stars_str \<noteq> [] then ''<b>Stars:</b> '' @ stars_str @ nl2 else [])
            @ (if directors_str \<noteq> [] then ''<b>Directors:</b> '' @ directors_str @ nl2 else [])
            @ genres_str))))"

section \<open>The collaborators\<close>

text \<open>
  A response of the HTTP client: its status, and what \<^verbatim>\<open>await response.json()\<close> gives (the
  decoded body, or the exception raised for a body that is not JSON).
\<close>

record response =
  status :: int
  json_body :: "error + json"

text \<open>
  What one call of the program sees of the outside: the credential of \<^verbatim>\<open>config\<close>, the
  outcome of \<^verbatim>\<open>session.get(url)\<close> for every URL (\<open>Inl\<close>: the request raised), and the
  outcome of \<^verbatim>\<open>IMDb().get_movie(id).get('plot')\<close> for every identifier (\<open>Inl\<close>: the library
  raised; \<open>Inr None\<close>: the movie has no plot entry). Python's float arithmetic is taken as
  given: \<^verbatim>\<open>float\<close> of an integer (\<open>None\<close>: \<^verbatim>\<open>OverflowError\<close>) and of a string (\<open>None\<close>:
  \<^verbatim>\<open>ValueError\<close>), and \<^verbatim>\<open>round(x, 1)\<close>, on floats carried by their \<^verbatim>\<open>repr\<close>.
\<close>

record world =
  TMDB_API_KEY :: string
  http_get :: "string \<Rightarrow> error + response"
  imdb_plot :: "string \<Rightarrow> error + string list option"
  float_of_int :: "int \<Rightarrow> string option"
  float_of_str :: "string \<Rightarrow> string option"
  round1 :: "string \<Rightarrow> string"

definition py_float :: "world \<Rightarrow> json \<Rightarrow> error + string" where
  "py_float w v =
     (case v of
        JInt i \<Rightarrow> (case float_of_int w i of None \<Rightarrow> Inl OverflowError | Some x \<Rightarrow> Inr x)
      | JFloat x \<Rightarrow> Inr x
      | JBool b \<Rightarrow> Inr (if b then ''1.0'' else ''0.0'')
      | JStr s \<Rightarrow> (case float_of_str w s of None \<Rightarrow> Inl ValueError | Some x \<Rightarrow> Inr x)
      | _ \<Rightarrow> Inl TypeError)"

section \<open>The trailer, the external identifier, the plot\<close>

definition videos_url :: "world \<Rightarrow> string \<Rightarrow> int \<Rightarrow> string" where
  "videos_url w tmdb_type tmdb_id =
     ''https://api.themoviedb.org/3/'' @ tmdb_type @ ''/'' @ str_int tmdb_id
       @ ''/videos?api_key='' @ TMDB_API_KEY w"

text \<open>The loop of \<^verbatim>\<open>get_trailer_url\<close> over the videos still to look at; it returns at the first match.\<close>

fun first_trailer :: "json list \<Rightarrow> error + json" where
  "first_trailer [] = Inr JNull"
| "first_trailer (video # videos) =
     bindr (py_get video ''site'' JNull) (\<lambda>site.
     bindr (py_get video ''type'' JNull) (\<lambda>type.
       if site = JStr ''YouTube'' \<and> type = JStr ''Trailer'' then
         bindr (py_get video ''key'' JNull) (\<lambda>key.
         Inr (JStr (''https://www.youtube.com/watch?v='' @ py_str key)))
       else first_trailer videos))"

definition get_trailer_url :: "world \<Rightarrow> string \<Rightarrow> int \<Rightarrow> error + json" where
  "get_trailer_url w tmdb_type tmdb_id =
     bindr (http_get w (videos_url w tmdb_type tmdb_id)) (\<lambda>video_response.
       if status video_response = 200 then
         bindr (json_body video_response) (\<lambda>data.
         bindr (py_get data ''results'' (JArr [])) (\<lambda>results.
         bindr (py_iter results) (\<lambda>videos.
         first_trailer videos)))
       else Inr JNull)"

definition external_ids_url :: "world \<Rightarrow> json \<Rightarrow> string" where
  "external_ids_url w tv_id =
     ''https://api.themoviedb.org/3/tv/'' @ py_str tv_id @ ''/external_ids?api_key=''
       @ TMDB_API_KEY w"

definition get_tv_imdb_id :: "world \<Rightarrow> json \<Rightarrow> error + json" where
  "get_tv_imdb_id w tv_id =
     bindr (http_get w (external_ids_url w tv_id)) (\<lambda>resp.
     bindr (json_body resp) (\<lambda>data.
     py_get data ''imdb_id'' JNull))"

text \<open>The \<^verbatim>\<open>try\<close> block of \<^verbatim>\<open>get_imdb_plot\<close>; \<^verbatim>\<open>replace\<close> is a method of strings only.\<close>

definition get_imdb_plot_try :: "world \<Rightarrow> json \<Rightarrow> error + string" where
  "get_imdb_plot_try w imdb_id =
     (case imdb_id of
        JStr s \<Rightarrow>
          bindr (imdb_plot w (remove_tt s)) (\<lambda>entry.
          bindr (case entry of
                   None \<Rightarrow> Inr []
                 | Some plots \<Rightarrow> (case plots of [] \<Rightarrow> Inl IndexError | p # _ \<Rightarrow> Inr p)) (\<lambda>plot.
            case split_dcolon plot of [] \<Rightarrow> Inl IndexError | p # _ \<Rightarrow> Inr (strip p)))
      | _ \<Rightarrow> Inl AttributeError)"

text \<open>\<^verbatim>\<open>except Exception\<close>: every exception of the block gives the empty plot.\<close>

definition get_imdb_plot :: "world \<Rightarrow> json \<Rightarrow> string" where
  "get_imdb_plot w imdb_id = (case get_imdb_plot_try w imdb_id of Inl e \<Rightarrow> [] | Inr plot \<Rightarrow> plot)"

text \<open>
  Lines 121 to 125 of \<^verbatim>\<open>get_by_id\<close>: the plot of the secondary source when there is an
  identifier, the \<^verbatim>\<open>overview\<close> of the detail payload when that plot is empty.
\<close>

definition resolve_plot :: "world \<Rightarrow> json \<Rightarrow> json \<Rightarrow> error + json" where
  "resolve_plot w imdb_id data =
     (let plot = (if truthy imdb_id then get_imdb_plot w imdb_id else [])
      in if plot \<noteq> [] then Inr (JStr plot) else py_get data ''overview'' (JStr []))"

section \<open>The aggregation\<close>

record mongo =
  mongo_tmdb_id :: int
  mongo_tmdb_type :: string
  mongo_title :: json
  mongo_rating :: string
  mongo_language :: string
  mongo_genre :: "json list"
  mongo_release_date :: json
  mongo_story :: json
  mongo_directors :: "person list"
  mongo_stars :: "person list"
  mongo_trailer_url :: json
  mongo_poster_url :: json

record announcement =
  message :: string
  poster_url :: json
  backdrop_url :: json
  trailer_url :: json
  mongo_dict :: mongo

text \<open>
  What \<^verbatim>\<open>get_by_id\<close> returns: the populated dict, or from either handler the dict
  \<^verbatim>\<open>{"message": f"Error: {e}", "poster_url": None}\<close> of the exception caught.
\<close>

datatype outcome = Populated announcement | Degraded error

definition api_url :: "world \<Rightarrow> string \<Rightarrow> int \<Rightarrow> string" where
  "api_url w tmdb_type tmdb_id =
     ''https://api.themoviedb.org/3/'' @ tmdb_type @ ''/'' @ str_int tmdb_id
       @ ''?api_key='' @ TMDB_API_KEY w @ ''&language=en-US''"

definition images_url :: "world \<Rightarrow> string \<Rightarrow> int \<Rightarrow> string" where
  "images_url w tmdb_type tmdb_id =
     ''https://api.themoviedb.org/3/'' @ tmdb_type @ ''/'' @ str_int tmdb_id
       @ ''/images?api_key='' @ TMDB_API_KEY w @ ''&language=en-US&include_image_language=en,hi''"

definition credits_url :: "world \<Rightarrow> string \<Rightarrow> int \<Rightarrow> string" where
  "credits_url w tmdb_type tmdb_id =
     ''https://api.themoviedb.org/3/'' @ tmdb_type @ ''/'' @ str_int tmdb_id
       @ ''/credits?api_key='' @ TMDB_API_KEY w @ ''&language=en-US''"

text \<open>
  \<^verbatim>\<open>asyncio.gather\<close> of three requests: all three responses, or the exception of a request
  that raised (of the first in argument order here; which one Python reports when several
  raise depends on timing, and both handlers treat them alike).
\<close>

definition gather :: "error + 'a \<Rightarrow> error + 'b \<Rightarrow> error + 'c \<Rightarrow> error + 'a \<times> 'b \<times> 'c" where
  "gather a b c = bindr a (\<lambda>x. bindr b (\<lambda>y. bindr c (\<lambda>z. Inr (x, y, z))))"

text \<open>\<^verbatim>\<open>", ".join([d["name"] for d in people]) if people else "Unknown"\<close>\<close>

definition names_str :: "person list \<Rightarrow> error + string" where
  "names_str people =
     (if people \<noteq> [] then py_join '', '' (map person_name people) else Inr ''Unknown'')"

text \<open>The \<^verbatim>\<open>try\<close> block of \<^verbatim>\<open>get_by_id\<close>, statement by statement.\<close>

definition get_by_id_try ::
  "world \<Rightarrow> string \<Rightarrow> int \<Rightarrow> int option \<Rightarrow> int option \<Rightarrow> error + announcement" where
  "get_by_id_try w tmdb_type tmdb_id season episode =
     bindr (gather (http_get w (api_url w tmdb_type tmdb_id))
                   (http_get w (images_url w tmdb_type tmdb_id))
                   (http_get w (credits_url w tmdb_type tmdb_id))) (\<lambda>(detail_resp, images_resp, credits_resp).
     bindr (json_body detail_resp) (\<lambda>data.
     bindr (json_body images_resp) (\<lambda>movie_images.
     bindr (json_body credits_resp) (\<lambda>credits.
     bindr (get_poster_url data) (\<lambda>poster.
     bindr (get_backdrop_url movie_images) (\<lambda>backdrop.
     bindr (get_trailer_url w tmdb_type tmdb_id) (\<lambda>trailer.
     bindr (extract_directors tmdb_type data credits) (\<lambda>directors_list.
     bindr (extract_stars credits) (\<lambda>stars_list.
     bindr (names_str directors_list) (\<lambda>directors_str.
     bindr (names_str stars_list) (\<lambda>stars_str.
     bindr (extract_language data) (\<lambda>language.
     bindr (extract_genres data) (\<lambda>genres.
     bindr (extract_release_date data) (\<lambda>release_date.
     bindr (py_get data ''imdb_id'' JNull) (\<lambda>detail_imdb_id.
     bindr (if tmdb_type = ''tv'' \<and> \<not> truthy detail_imdb_id
            then bindr (py_get data ''id'' JNull) (get_tv_imdb_id w)
            else Inr detail_imdb_id) (\<lambda>imdb_id.
     bindr (resolve_plot w imdb_id data) (\<lambda>plot.
     bindr (format_tmdb_info tmdb_type season episode directors_str stars_str data plot) (\<lambda>msg.
     bindr (bindr (py_get data ''title'' JNull) (\<lambda>t.
              if truthy t then Inr t else py_get data ''name'' JNull)) (\<lambda>title.
     bindr (bindr (py_get data ''vote_average'' (JInt 0)) (py_float w)) (\<lambda>vote.
     bindr (if truthy plot then Inr plot else py_get data ''overview'' JNull) (\<lambda>story.
     Inr \<lparr>message = msg,
          poster_url = poster,
          backdrop_url = backdrop,
          trailer_url = trailer,
          mongo_dict =
            \<lparr>mongo_tmdb_id = tmdb_id,
             mongo_tmdb_type = tmdb_type,
             mongo_title = title,
             mongo_rating = round1 w vote,
             mongo_language = language,
             mongo_genre = genres,
             mongo_release_date = release_date,
             mongo_story = story,
             mongo_directors = directors_list,
             mongo_stars = stars_list,
             mongo_trailer_url = trailer,
             mongo_poster_url = poster\<rparr>\<rparr>)))))))))))))))))))))"

text \<open>The two handlers: whatever the block raises, the degraded dict is returned.\<close>

definition get_by_id :: "world \<Rightarrow> string \<Rightarrow> int \<Rightarrow> int option \<Rightarrow> int option \<Rightarrow> outcome" where
  "get_by_id w tmdb_type tmdb_id season episode =
     (case get_by_id_try w tmdb_type tmdb_id season episode of
        Inl e \<Rightarrow> Degraded e
      | Inr r \<Rightarrow> Populated r)"

section \<open>Search by name\<close>

text \<open>A comprehension with a condition that may raise.\<close>

primrec filterM :: "('a \<Rightarrow> error + bool) \<Rightarrow> 'a list \<Rightarrow> error + 'a list" where
  "filterM p [] = Inr []"
| "filterM p (x # xs) =
     (case p x of
        Inl e \<Rightarrow> Inl e
      | Inr b \<Rightarrow>
          (case filterM p xs of Inl e \<Rightarrow> Inl e | Inr ys \<Rightarrow> Inr (if b then x # ys else ys)))"

text \<open>
  The condition of the year filter, for the date field \<open>field\<close> (\<^verbatim>\<open>release_date\<close> for movies,
  \<^verbatim>\<open>first_air_date\<close> for series):
  \<^verbatim>\<open>field in result and result[field] and result[field][:4] == str(year)\<close>.
\<close>

definition year_matches :: "string \<Rightarrow> json \<Rightarrow> json \<Rightarrow> error + bool" where
  "year_matches field year result =
     bindr (py_in field result) (\<lambda>present.
       if \<not> present then Inr False
       else
         bindr (py_item result field) (\<lambda>date.
           if \<not> truthy date then Inr False
           else
             bindr (py_item result field) (\<lambda>date'.
             bindr (py_slice 4 date') (\<lambda>prefix.
             Inr (prefix = JStr (py_str year))))))"

record found =
  found_id :: json
  media_type :: string

text \<open>
  The \<^verbatim>\<open>try\<close> block shared, word for word, by \<^verbatim>\<open>get_movie_by_name\<close> and \<^verbatim>\<open>get_tv_by_name\<close>,
  which differ in the endpoint, the date field and the media type only. The year is
  \<^verbatim>\<open>None\<close> or whatever the caller passes; it is tested for truth and printed by \<^verbatim>\<open>str\<close>.
\<close>

definition search_url :: "world \<Rightarrow> string \<Rightarrow> string \<Rightarrow> string" where
  "search_url w kind name =
     ''https://api.themoviedb.org/3/search/'' @ kind @ ''?api_key='' @ TMDB_API_KEY w
       @ ''&query='' @ name"

definition search_try :: "world \<Rightarrow> string \<Rightarrow> string \<Rightarrow> string \<Rightarrow> json \<Rightarrow> error + found option" where
  "search_try w kind field name year =
     bindr (http_get w (search_url w kind name)) (\<lambda>search_response.
     bindr (json_body search_response) (\<lambda>search_data.
     bindr (py_get search_data ''results'' JNull) (\<lambda>have.
       if truthy have then
         bindr (py_item search_data ''results'') (\<lambda>all_results.
         bindr (if truthy year then
                  bindr (py_iter all_results) (\<lambda>rs.
                  bindr (filterM (year_matches field year) rs) (\<lambda>kept_results.
                  Inr (JArr kept_results)))
                else Inr all_results) (\<lambda>results.
           if truthy results then
             bindr (py_first results) (\<lambda>result.
             bindr (py_item result ''id'') (\<lambda>i.
             Inr (Some \<lparr>found_id = i, media_type = kind\<rparr>)))
           else Inr None))
       else Inr None)))"

definition get_movie_by_name :: "world \<Rightarrow> string \<Rightarrow> json \<Rightarrow> found option" where
  "get_movie_by_name w movie_name release_year =
     (case search_try w ''movie'' ''release_date'' movie_name release_year of
        Inl e \<Rightarrow> None
      | Inr r \<Rightarrow> r)"

definition get_tv_by_name :: "world \<Rightarrow> string \<Rightarrow> json \<Rightarrow> found option" where
  "get_tv_by_name w tv_name first_air_year =
     (case search_try w ''tv'' ''first_air_date'' tv_name first_air_year of
        Inl e \<Rightarrow> None
      | Inr r \<Rightarrow> r)"

section \<open>Example payloads\<close>

definition dune :: "(string \<times> json) list" where
  "dune = [(''title'', JStr ''Dune''), (''release_date'', JStr ''2021-09-15'')]"

definition undated :: "(string \<times> json) list" where
  "undated = [(''title'', JStr ''Dune'')]"

definition scifi_genres :: "json list" where
  "scifi_genres = [JObj [(''id'', JInt 10765), (''name'', JStr ''Sci-Fi & Fantasy'')],
                   JObj [(''id'', JInt 18), (''name'', JStr ''Drama'')]]"

definition scifi_show :: "(string \<times> json) list" where
  "scifi_show = [(''name'', JStr ''Show''), (''genres'', JArr scifi_genres)]"

definition padded_genre :: json where
  "padded_genre = JObj [(''genres'', JArr [JObj [(''id'', JInt 18), (''name'', JStr '' Drama'')]])]"

definition nameless_genre :: json where
  "nameless_genre = JObj [(''genres'', JArr [JObj [(''id'', JInt 18)]])]"

subsection \<open>Example worlds\<close>

text \<open>
  The examples fix the credential, answer each request by the endpoint its URL names, and
  take the float arithmetic where the examples need it: \<^verbatim>\<open>float(i)\<close> of a small integer
  prints as \<^verbatim>\<open>i.0\<close>, that value is its own rounding to one decimal, and no example has a
  vote that is a string.
\<close>

definition respond :: "int \<Rightarrow> json \<Rightarrow> error + response" where
  "respond st body = Inr \<lparr>status = st, json_body = Inr body\<rparr>"

definition net ::
  "error + response \<Rightarrow> error + response \<Rightarrow> error + response \<Rightarrow> error + response
     \<Rightarrow> error + response \<Rightarrow> string \<Rightarrow> error + response" where
  "net detail images credits videos external url =
     (if contains_sub ''/videos?'' url then videos
      else if contains_sub ''/images?'' url then images
      else if contains_sub ''/credits?'' url then credits
      else if contains_sub ''/external_ids?'' url then external
      else detail)"

definition demo_world ::
  "(string \<Rightarrow> error + response) \<Rightarrow> (string \<Rightarrow> error + string list option) \<Rightarrow> world" where
  "demo_world get plots =
     \<lparr>TMDB_API_KEY = ''KEY'',
      http_get = get,
      imdb_plot = plots,
      float_of_int = (\<lambda>i. Some (str_int i @ ''.0'')),
      float_of_str = (\<lambda>s. None),
      round1 = (\<lambda>x. x)\<rparr>"

definition no_videos :: "error + response" where
  "no_videos = respond 200 (JObj [(''results'', JArr [])])"

definition tmdb_error :: json where
  "tmdb_error =
     JObj [(''success'', JBool False), (''status_code'', JInt 34),
           (''status_message'', JStr ''The resource you requested could not be found.'')]"

text \<open>A movie with no credits at all.\<close>

definition plain_world :: world where
  "plain_world =
     demo_world (net (respond 200 (JObj dune)) (respond 200 (JObj [])) (respond 200 (JObj []))
                     no_videos (Inl ClientError))
                (\<lambda>i. Inr None)"

text \<open>The same movie when the videos request fails in transport, and when it is answered 404.\<close>

definition trailer_down :: world where
  "trailer_down =
     demo_world (net (respond 200 (JObj dune)) (respond 200 (JObj [])) (respond 200 (JObj []))
                     (Inl ClientError) (Inl ClientError))
                (\<lambda>i. Inr None)"

definition trailer_404 :: world where
  "trailer_404 =
     demo_world (net (respond 200 (JObj dune)) (respond 200 (JObj [])) (respond 200 (JObj []))
                     (respond 404 tmdb_error) (Inl ClientError))
                (\<lambda>i. Inr None)"

text \<open>A series with no external identifier in its detail, when the identifier request fails.\<close>

definition external_down :: world where
  "external_down =
     demo_world (net (respond 200 (JObj scifi_show)) (respond 200 (JObj [])) (respond 200 (JObj []))
                     no_videos (Inl ClientError))
                (\<lambda>i. Inr None)"

text \<open>The same movie when its detail is answered, with status \<open>st\<close>, by a JSON array.\<close>

definition array_world :: "int \<Rightarrow> world" where
  "array_world st =
     demo_world (net (respond st (JArr [])) (respond 200 (JObj [])) (respond 200 (JObj []))
                     no_videos (Inl ClientError))
                (\<lambda>i. Inr None)"

text \<open>The same movie when the videos request is answered, with status \<open>st\<close>, by one trailer.\<close>

definition one_trailer :: json where
  "one_trailer =
     JObj [(''results'',
            JArr [JObj [(''site'', JStr ''YouTube''), (''type'', JStr ''Teaser''), (''key'', JStr ''k0'')],
                  JObj [(''site'', JStr ''YouTube''), (''type'', JStr ''Trailer''), (''key'', JStr ''k1'')]])]"

definition trailer_world :: "int \<Rightarrow> world" where
  "trailer_world st =
     demo_world (net (respond 200 (JObj dune)) (respond 200 (JObj [])) (respond 200 (JObj []))
                     (respond st one_trailer) (Inl ClientError))
                (\<lambda>i. Inr None)"

text \<open>A movie with an external identifier, an overview, and a plot at the secondary source.\<close>

definition dune_with_id :: "(string \<times> json) list" where
  "dune_with_id = dune @ [(''imdb_id'', JStr ''tt1160419''), (''overview'', JStr ''A gifted young man.'')]"

definition plot_world :: "(string \<Rightarrow> error + string list option) \<Rightarrow> world" where
  "plot_world plots =
     demo_world (net (respond 200 (JObj dune_with_id)) (respond 200 (JObj []))
                     (respond 200 (JObj [])) no_videos (Inl ClientError))
                plots"

definition one_plot :: "string \<Rightarrow> error + string list option" where
  "one_plot i = (if i = ''1160419'' then Inr (Some ['' Paul unites the tribes. ::Anonymous''])
                 else Inl OtherError)"

text \<open>A search answered with two results, of 2014 and of 2009.\<close>

definition two_results :: "json list" where
  "two_results =
     [JObj [(''id'', JInt 64956), (''release_date'', JStr ''2014-01-31''),
            (''first_air_date'', JStr ''2014-01-31'')],
      JObj [(''id'', JInt 27205), (''release_date'', JStr ''2009-07-15''),
            (''first_air_date'', JStr ''2009-07-15'')]]"

definition search_world :: world where
  "search_world =
     demo_world (\<lambda>url. if contains_sub ''/search/'' url
                        then respond 200 (JObj [(''page'', JInt 1), (''results'', JArr two_results)])
                        else Inl ClientError)
                (\<lambda>i. Inr None)"

text \<open>
  The results of a search: the list under \<^verbatim>\<open>results\<close> of the body of the answer, when the
  request is answered with a dict that has one.
\<close>

definition search_results :: "world \<Rightarrow> string \<Rightarrow> string \<Rightarrow> json list option" where
  "search_results w kind name =
     (case http_get w (search_url w kind name) of
        Inl e \<Rightarrow> None
      | Inr resp \<Rightarrow>
          (case json_body resp of
             Inr (JObj kvs) \<Rightarrow>
               (case map_of kvs ''results'' of Some (JArr rs) \<Rightarrow> Some rs | _ \<Rightarrow> None)
           | _ \<Rightarrow> None))"

text \<open>The world \<open>w\<close> with the status of every response replaced by \<open>st\<close> of its URL.\<close>

definition restatus :: "(string \<Rightarrow> int) \<Rightarrow> world \<Rightarrow> world" where
  "restatus st w =
     w\<lparr>http_get := (\<lambda>url. case http_get w url of
                             Inl e \<Rightarrow> Inl e
                           | Inr r \<Rightarrow> Inr (r\<lparr>status := st url\<rparr>))\<rparr>"

text \<open>What the aggregation returns for the movie with no credits.\<close>

definition plain_result :: announcement where
  "plain_result =
     \<lparr>message = ''<b>Dune (2021)</b> is now available!'' @ [CHR 0x0A, CHR 0x0A]
                 @ ''<b>Stars:</b> Unknown'' @ [CHR 0x0A, CHR 0x0A] @ ''<b>Directors:</b> Unknown'',
      poster_url = JNull, backdrop_url = JNull, trailer_url = JNull,
      mongo_dict =
        \<lparr>mongo_tmdb_id = 7, mongo_tmdb_type = ''movie'', mongo_title = JStr ''Dune'',
         mongo_rating = ''0.0'', mongo_language = ''Unknown'', mongo_genre = [],
         mongo_release_date = JStr ''2021-09-15'', mongo_story = JNull,
         mongo_directors = [], mongo_stars = [], mongo_trailer_url = JNull,
         mongo_poster_url = JNull\<rparr>\<rparr>"

section \<open>Basic facts\<close>

lemma bindr_Inl [simp]: "bindr (Inl e) f = Inl e"
  by (simp add: bindr_def)

lemma bindr_Inr [simp]: "bindr (Inr x) f = f x"
  by (simp add: bindr_def)

lemma bindr_eq_Inr: "bindr m f = Inr y \<longleftrightarrow> (\<exists>x. m = Inr x \<and> f x = Inr y)"
  by (cases m) simp_all

lemma mapM_all_Inr: "map f xs = map Inr ys \<Longrightarrow> mapM f xs = Inr ys"
proof (induction xs arbitrary: ys)
  case Nil
  then show ?case by simp
next
  case (Cons x xs)
  then obtain y ys' where ys: "ys = y # ys'" "f x = Inr y" "map f xs = map Inr ys'"
    by (cases ys) auto
  with Cons.IH [of ys'] show ?case by simp
qed

lemma contains_sub_single: "contains_sub [c] s = (c \<in> set s)"
  by (induction s) auto

lemma split_on_length: "length (split_on c s) = Suc (length (filter (\<lambda>x. x = c) s))"
  by (induction s) (auto split: list.splits)

lemma strip_trimmed:
  "strip s = [] \<or> (\<not> is_space (hd (strip s)) \<and> \<not> is_space (last (strip s)))"
proof (cases "strip s = []")
  case True
  then show ?thesis by simp
next
  case False
  define a where "a = dropWhile is_space s"
  define b where "b = dropWhile is_space (rev a)"
  have s: "strip s = rev b" by (simp add: strip_def a_def b_def)
  from False s have b: "b \<noteq> []" by simp
  then have "\<not> is_space (hd b)" unfolding b_def by (rule hd_dropWhile)
  then have l: "\<not> is_space (last (strip s))" using b s by (simp add: last_rev)
  have a: "a \<noteq> []" using b by (auto simp: b_def)
  then have ha: "\<not> is_space (hd a)" unfolding a_def by (rule hd_dropWhile)
  have "rev a = takeWhile is_space (rev a) @ b" by (simp add: b_def)
  then have "last b = last (rev a)" using b by (metis last_appendR)
  then have "hd (strip s) = hd a" using a b s by (simp add: hd_rev last_rev)
  with ha l show ?thesis by simp
qed

subsection \<open>Genre tags of string names\<close>

lemma concat_kept_chars: "concat (map (\<lambda>c. if isalnum c then [c] else []) s) = filter isalnum s"
  by (induction s) simp_all

lemma kept_char: "kept (JStr [c]) = Inr (if isalnum c then [c] else [])"
  by (simp add: kept_def str_isalnum_def)

lemma mapM_kept_chars:
  "mapM kept (map (\<lambda>c. JStr [c]) n) = Inr (map (\<lambda>c. if isalnum c then [c] else []) n)"
  by (induction n) (simp_all add: kept_char)

lemma genre_tag_str: "genre_tag (JStr n) = Inr (CHR ''#'' # filter isalnum n)"
  by (simp add: genre_tag_def mapM_kept_chars concat_kept_chars)

lemma genre_tags_names:
  assumes "map_of kvs ''genres'' = Some (JArr gs)"
    and "map (\<lambda>g. py_item g ''name'') gs = map (\<lambda>n. Inr (JStr n)) names"
  shows "genre_tags (JObj kvs) = Inr (join '' '' (map (\<lambda>n. CHR ''#'' # filter isalnum n) names))"
proof -
  have a: "mapM (\<lambda>g. py_item g ''name'') gs = Inr (map JStr names)"
    using assms(2) by (intro mapM_all_Inr) (simp add: comp_def)
  have b: "mapM genre_tag (map JStr names) = Inr (map (\<lambda>n. CHR ''#'' # filter isalnum n) names)"
    by (intro mapM_all_Inr) (simp add: genre_tag_str comp_def)
  show ?thesis using assms(1) by (simp add: genre_tags_def a b)
qed

lemma genre_entries_str:
  "py_item g ''name'' = Inr (JStr n) \<Longrightarrow>
   genre_entries g =
     Inr (if CHR ''&'' \<in> set n then map (\<lambda>p. JStr (strip p)) (split_on CHR ''&'' n) else [JStr n])"
  by (simp add: genre_entries_def contains_sub_single)

section \<open>Genres\<close>

text \<open>
  C7, as the code has it. For a payload whose genre entries have string names, the genre
  extractor returns, in the order of the payload and with nothing removed, for a name with
  an ampersand its parts between the ampersands, each trimmed, and for any other name the
  name as it is: not trimmed. A name with an ampersand gives at least two parts, and a
  trimmed part neither starts nor ends with white space (the white space of \<^verbatim>\<open>str.strip\<close>,
  the no-break space and the next-line control among it).
\<close>

theorem extract_genres_names:
  assumes "map_of kvs ''genres'' = Some (JArr gs)"
    and "map (\<lambda>g. py_item g ''name'') gs = map (\<lambda>n. Inr (JStr n)) names"
  shows "extract_genres (JObj kvs) =
           Inr (concat (map (\<lambda>n. if CHR ''&'' \<in> set n
                                  then map (\<lambda>p. JStr (strip p)) (split_on CHR ''&'' n)
                                  else [JStr n]) names))
         \<and> (\<forall>n. CHR ''&'' \<in> set n \<longrightarrow> 2 \<le> length (split_on CHR ''&'' n))
         \<and> (\<forall>p. strip p = [] \<or> (\<not> is_space (hd (strip p)) \<and> \<not> is_space (last (strip p))))"
proof -
  let ?e = "\<lambda>n. if CHR ''&'' \<in> set n
                 then map (\<lambda>p. JStr (strip p)) (split_on CHR ''&'' n) else [JStr n]"
  have "map genre_entries gs = map Inr (map ?e names)"
    using assms(2)
  proof (induction gs arbitrary: names)
    case Nil
    then show ?case by simp
  next
    case (Cons g gs)
    then obtain n ns where "names = n # ns" by (cases names) auto
    with Cons show ?case by (simp add: genre_entries_str)
  qed
  then have "mapM genre_entries gs = Inr (map ?e names)" by (rule mapM_all_Inr)
  then have 1: "extract_genres (JObj kvs) = Inr (concat (map ?e names))"
    using assms(1) by (simp add: extract_genres_def)
  have 2: "2 \<le> length (split_on CHR ''&'' n)" if "CHR ''&'' \<in> set n" for n
  proof -
    from that have "filter (\<lambda>x. x = CHR ''&'') n \<noteq> []" by (simp add: filter_empty_conv)
    then have "1 \<le> length (filter (\<lambda>x. x = CHR ''&'') n)" by (simp add: Suc_leI)
    then show ?thesis by (simp add: split_on_length)
  qed
  show ?thesis using 1 2 strip_trimmed by blast
qed

text \<open>
  The theorem at the payload of the series example, where two genres give three entries,
  and at a name that a no-break space starts and a next-line control ends.
\<close>

theorem extract_genres_names_witness:
  "extract_genres (JObj scifi_show) = Inr [JStr ''Sci-Fi'', JStr ''Fantasy'', JStr ''Drama'']
   \<and> extract_genres (JObj [(''genres'', JArr [JObj [(''name'', JStr (CHR 0xA0 # ''A&B'' @ [CHR 0x85]))]])])
       = Inr [JStr ''A'', JStr ''B'']"
proof -
  have g: "map_of scifi_show ''genres'' = Some (JArr scifi_genres)"
    by (simp add: scifi_show_def)
  have n: "map (\<lambda>g. py_item g ''name'') scifi_genres
             = map (\<lambda>n. Inr (JStr n)) [''Sci-Fi & Fantasy'', ''Drama'']"
    by (simp add: scifi_genres_def)
  have s: "split_on CHR ''&'' ''Sci-Fi & Fantasy'' = [''Sci-Fi '', '' Fantasy'']"
    by simp
  have t: "strip ''Sci-Fi '' = ''Sci-Fi''" "strip '' Fantasy'' = ''Fantasy''"
    by (simp_all add: strip_def is_space_def)
  from extract_genres_names [OF g n]
  have 1: "extract_genres (JObj scifi_show) = Inr [JStr ''Sci-Fi'', JStr ''Fantasy'', JStr ''Drama'']"
    by (simp add: s t)
  let ?name = "CHR 0xA0 # ''A&B'' @ [CHR 0x85]"
  let ?kvs = "[(''genres'', JArr [JObj [(''name'', JStr ?name)]])]"
  have g': "map_of ?kvs ''genres'' = Some (JArr [JObj [(''name'', JStr ?name)]])"
    by simp
  have n': "map (\<lambda>g. py_item g ''name'') [JObj [(''name'', JStr ?name)]]
              = map (\<lambda>n. Inr (JStr n)) [?name]"
    by simp
  have t': "strip [CHR 0xA0, CHR ''A''] = ''A''" "strip [CHR ''B'', CHR 0x85] = ''B''"
    by (simp_all add: strip_def is_space_def)
  from extract_genres_names [OF g' n']
  have 2: "extract_genres (JObj ?kvs) = Inr [JStr ''A'', JStr ''B'']"
    by (simp add: t')
  from 1 2 show ?thesis by simp
qed

text \<open>
  C7 as stated fails where the name has no ampersand: the name \<^verbatim>\<open>" Drama"\<close> is kept with
  its leading space, so the entry is not the trimmed input.
\<close>

theorem extract_genres_untrimmed_counterexample:
  "extract_genres padded_genre = Inr [JStr '' Drama'']
   \<and> extract_genres padded_genre \<noteq> Inr [JStr (strip '' Drama'')]"
  by (simp add: padded_genre_def extract_genres_def genre_entries_def strip_def is_space_def)

text \<open>
  C6: the claim asks that a genre entry with no \<^verbatim>\<open>name\<close> be tolerated. The genre extractor
  indexes \<^verbatim>\<open>genre['name']\<close> and raises \<^verbatim>\<open>KeyError\<close> there, while its siblings read every
  field with \<^verbatim>\<open>get\<close>: a language with no \<^verbatim>\<open>english_name\<close> and a director with no \<^verbatim>\<open>name\<close>
  or \<^verbatim>\<open>profile_path\<close> are extracted.
\<close>

theorem extract_genres_nameless:
  "extract_genres nameless_genre = Inl KeyError
   \<and> extract_language (JObj [(''spoken_languages'', JArr [JObj []])]) = Inr ''Unknown''
   \<and> extract_directors ''movie'' (JObj []) (JObj [(''crew'', JArr [JObj [(''job'', JStr ''Director'')]])])
       = Inr [\<lparr>person_name = JNull, person_profile_path = JNull\<rparr>]
   \<and> extract_stars (JObj [(''cast'', JArr [JObj []])])
       = Inr [\<lparr>person_name = JNull, person_profile_path = JNull\<rparr>]"
  by (simp add: nameless_genre_def extract_genres_def genre_entries_def extract_language_def
      py_join_def extract_directors_def director_of_def person_of_def profile_url_def
      extract_stars_def)

section \<open>Genre tags\<close>

text \<open>
  C3, as the code has it. The formatter does not use the list of the genre extractor: it
  reads the names of the payload again. For string names the tags are, space-joined, a
  \<^verbatim>\<open>#\<close> and the alphanumeric characters of each whole name (those of \<^verbatim>\<open>str.isalnum\<close>, the
  letters and digits of Latin-1 among them), one tag for each genre of the payload, and
  the message ends with them.
\<close>

theorem genre_tags_rendering:
  assumes "map_of kvs ''genres'' = Some (JArr gs)"
    and "map (\<lambda>g. py_item g ''name'') gs = map (\<lambda>n. Inr (JStr n)) names"
  shows "genre_tags (JObj kvs) = Inr (join '' '' (map (\<lambda>n. CHR ''#'' # filter isalnum n) names))
         \<and> format_tmdb_info tmdb_type season episode directors_str stars_str (JObj kvs) plot =
             bindr (header_of tmdb_type season episode (JObj kvs)) (\<lambda>header.
               Inr (strip
                 (header @ [CHR 0x0A, CHR 0x0A]
                  @ (if later_episode season episode then []
                     else (if truthy plot then py_str plot @ [CHR 0x0A, CHR 0x0A] else [])
                       @ (if stars_str \<noteq> []
                          then ''<b>Stars:</b> '' @ stars_str @ [CHR 0x0A, CHR 0x0A] else [])
                       @ (if directors_str \<noteq> []
                          then ''<b>Directors:</b> '' @ directors_str @ [CHR 0x0A, CHR 0x0A]
                          else []))
                  @ join '' '' (map (\<lambda>n. CHR ''#'' # filter isalnum n) names))))"
proof -
  note t = genre_tags_names [OF assms]
  show ?thesis
    by (cases "later_episode season episode") (simp_all add: format_tmdb_info_def t nl2_def)
qed

theorem genre_tags_rendering_witness:
  "genre_tags (JObj scifi_show) = Inr ''#SciFiFantasy #Drama''
   \<and> genre_tags (JObj [(''genres'', JArr [JObj [(''name'', JStr (''Com'' @ [CHR 0xE9] @ ''die 2''))]])])
       = Inr (''#Com'' @ [CHR 0xE9] @ ''die2'')"
proof -
  have g: "map_of scifi_show ''genres'' = Some (JArr scifi_genres)"
    by (simp add: scifi_show_def)
  have n: "map (\<lambda>g. py_item g ''name'') scifi_genres
             = map (\<lambda>n. Inr (JStr n)) [''Sci-Fi & Fantasy'', ''Drama'']"
    by (simp add: scifi_genres_def)
  from genre_tags_rendering [OF g n]
  have 1: "genre_tags (JObj scifi_show) = Inr ''#SciFiFantasy #Drama''"
    by (simp add: isalnum_def)
  let ?name = "''Com'' @ [CHR 0xE9] @ ''die 2''"
  let ?kvs = "[(''genres'', JArr [JObj [(''name'', JStr ?name)]])]"
  have g': "map_of ?kvs ''genres'' = Some (JArr [JObj [(''name'', JStr ?name)]])"
    by simp
  have n': "map (\<lambda>g. py_item g ''name'') [JObj [(''name'', JStr ?name)]]
              = map (\<lambda>n. Inr (JStr n)) [?name]"
    by simp
  from genre_tags_rendering [OF g' n']
  have 2: "genre_tags (JObj ?kvs) = Inr (''#Com'' @ [CHR 0xE9] @ ''die2'')"
    by (simp add: isalnum_def)
  from 1 2 show ?thesis by simp
qed

text \<open>
  C3 as stated fails: the genre \<^verbatim>\<open>"Sci-Fi & Fantasy"\<close> is one tag in the message of episode 2
  of the series example, not the two tags of the claim.
\<close>

theorem genre_tags_single_tag_counterexample:
  "format_tmdb_info ''tv'' (Some 1) (Some 2) ''Unknown'' ''Unknown'' (JObj scifi_show) (JStr [])
     = Inr (''<b>Show S01E02</b> is now available!'' @ [CHR 0x0A, CHR 0x0A]
            @ ''#SciFiFantasy #Drama'')
   \<and> genre_tags (JObj [(''genres'', JArr [JObj [(''name'', JStr ''Sci-Fi & Fantasy'')]])])
       = Inr ''#SciFiFantasy''
   \<and> genre_tags (JObj [(''genres'', JArr [JObj [(''name'', JStr ''Sci-Fi & Fantasy'')]])])
       \<noteq> Inr ''#SciFi #Fantasy''"
  by code_simp

section \<open>The header of a movie\<close>

text \<open>
  C5, as the code has it. The header of a movie is the title, a space, the year in
  parentheses and the fixed text, the title in bold with the year. The year is the first
  four characters of a release date that is a string; when the release date is absent
  (or \<^verbatim>\<open>None\<close>, or empty) the year is the empty text and the parentheses stay.
\<close>

theorem movie_header:
  "(\<forall>d. map_of kvs ''release_date'' = Some (JStr d) \<longrightarrow>
      header_of ''movie'' season episode (JObj kvs) =
        Inr (''<b>'' @ py_str (case map_of kvs ''title'' of None \<Rightarrow> JStr [] | Some t \<Rightarrow> t)
             @ '' ('' @ take 4 d @ '')</b> is now available!''))
   \<and> (\<not> truthy (case map_of kvs ''release_date'' of None \<Rightarrow> JNull | Some v \<Rightarrow> v) \<longrightarrow>
      header_of ''movie'' season episode (JObj kvs) =
        Inr (''<b>'' @ py_str (case map_of kvs ''title'' of None \<Rightarrow> JStr [] | Some t \<Rightarrow> t)
             @ '' ()</b> is now available!''))"
  by (auto simp: header_of_def year_field_def py_str_def)

theorem movie_header_witness:
  "header_of ''movie'' None None (JObj dune) = Inr ''<b>Dune (2021)</b> is now available!''
   \<and> header_of ''movie'' None None (JObj undated) = Inr ''<b>Dune ()</b> is now available!''"
proof -
  have d: "map_of dune ''release_date'' = Some (JStr ''2021-09-15'')"
    and t: "map_of dune ''title'' = Some (JStr ''Dune'')"
    by (simp_all add: dune_def)
  have u: "map_of undated ''release_date'' = None" "map_of undated ''title'' = Some (JStr ''Dune'')"
    by (simp_all add: undated_def)
  from movie_header [of dune None None] d t
  have 1: "header_of ''movie'' None None (JObj dune) = Inr ''<b>Dune (2021)</b> is now available!''"
    by (simp add: py_str_def)
  from movie_header [of undated None None] u
  have 2: "header_of ''movie'' None None (JObj undated) = Inr ''<b>Dune ()</b> is now available!''"
    by (simp add: py_str_def)
  from 1 2 show ?thesis by simp
qed

text \<open>
  C5 as stated fails where the release date is absent: the parentheses are not left out.
\<close>

theorem movie_header_parentheses_counterexample:
  "header_of ''movie'' None None (JObj undated) = Inr ''<b>Dune ()</b> is now available!''
   \<and> header_of ''movie'' None None (JObj undated) \<noteq> Inr ''<b>Dune</b> is now available!''"
  by code_simp

subsection \<open>What trimming leaves\<close>

lemma dropWhile_hd: "s \<noteq> [] \<Longrightarrow> \<not> P (hd s) \<Longrightarrow> dropWhile P s = s"
  by (cases s) simp_all

lemma is_space_newline: "is_space (CHR 0x0A)"
  by (simp add: is_space_def)

lemma isalnum_not_space: "isalnum c \<Longrightarrow> \<not> is_space c"
  by (auto simp: isalnum_def is_space_def Let_def)

lemma strip_id: "s \<noteq> [] \<Longrightarrow> \<not> is_space (hd s) \<Longrightarrow> \<not> is_space (last s) \<Longrightarrow> strip s = s"
  by (simp add: strip_def dropWhile_hd hd_rev)

lemma strip_blank_line:
  assumes "s \<noteq> []" "\<not> is_space (hd s)" "\<not> is_space (last s)"
  shows "strip (s @ [CHR 0x0A, CHR 0x0A]) = s"
proof -
  have 1: "dropWhile is_space (s @ [CHR 0x0A, CHR 0x0A]) = s @ [CHR 0x0A, CHR 0x0A]"
    using assms by (intro dropWhile_hd) simp_all
  have 2: "dropWhile is_space (rev s) = rev s"
    using assms by (intro dropWhile_hd) (simp_all add: hd_rev)
  show ?thesis by (simp add: strip_def 1) (simp add: is_space_newline 2)
qed

lemma header_shape:
  "header_of tmdb_type season episode data = Inr h \<Longrightarrow>
   h \<noteq> [] \<and> \<not> is_space (hd h) \<and> \<not> is_space (last h)"
  by (auto simp: header_of_def tv_header_def bindr_eq_Inr is_space_def split: if_splits)

lemma mapM_Inr_set: "mapM f xs = Inr ys \<Longrightarrow> y \<in> set ys \<Longrightarrow> \<exists>x\<in>set xs. f x = Inr y"
  by (induction xs arbitrary: ys) (auto split: sum.splits)

lemma kept_alnum: "kept c = Inr p \<Longrightarrow> list_all isalnum p"
  by (auto simp: kept_def str_isalnum_def split: json.splits if_splits)

lemma genre_tag_shape:
  assumes "genre_tag g = Inr c"
  shows "c \<noteq> [] \<and> \<not> is_space (last c)"
proof -
  from assms obtain cs parts where p: "mapM kept cs = Inr parts" and c0: "c = CHR ''#'' # concat parts"
    by (auto simp: genre_tag_def bindr_eq_Inr)
  define body where "body = concat parts"
  with c0 have c: "c = CHR ''#'' # body" by simp
  have "\<not> is_space (last c)"
  proof (cases "body = []")
    case True
    with c show ?thesis by (simp add: is_space_def)
  next
    case False
    then have "last body \<in> set body" by (rule last_in_set)
    then obtain q where q: "q \<in> set parts" "last body \<in> set q" by (auto simp: body_def)
    from mapM_Inr_set [OF p q(1)] obtain x where "kept x = Inr q" by blast
    then have "list_all isalnum q" by (rule kept_alnum)
    with q(2) have "isalnum (last body)" by (simp add: list_all_iff)
    with c False show ?thesis by (simp add: isalnum_not_space)
  qed
  with c show ?thesis by simp
qed

lemma join_last:
  "cs \<noteq> [] \<Longrightarrow> \<forall>c\<in>set cs. c \<noteq> [] \<Longrightarrow> join sep cs \<noteq> [] \<and> last (join sep cs) = last (last cs)"
  by (induction sep cs rule: join.induct) simp_all

lemma tags_shape:
  assumes "genre_tags data = Inr t"
  shows "t = [] \<or> \<not> is_space (last t)"
proof -
  from assms obtain genres cs where m: "mapM genre_tag genres = Inr cs" and t: "t = join '' '' cs"
    by (auto simp: genre_tags_def bindr_eq_Inr)
  have each: "c \<noteq> [] \<and> \<not> is_space (last c)" if "c \<in> set cs" for c
    using mapM_Inr_set [OF m that] genre_tag_shape by blast
  show ?thesis
  proof (cases "cs = []")
    case True
    with t show ?thesis by simp
  next
    case False
    with each have "join '' '' cs \<noteq> [] \<and> last (join '' '' cs) = last (last cs)"
      by (intro join_last) auto
    moreover from False have "last cs \<in> set cs" by simp
    ultimately show ?thesis using each t by auto
  qed
qed

section \<open>Later episodes\<close>

text \<open>
  C4, as the code has it. When the season or the episode is above 1, the message is built
  from the header, a blank line and the genre tags, whatever the plot, the stars and the
  directors are, and it is returned trimmed. With at least one genre tag it is exactly the
  header, the two line feeds and the tags; with none, the trimming drops the blank line
  and the message is the header alone.
\<close>

theorem later_episode_body:
  assumes "season = Some s \<and> 1 < s \<or> episode = Some e \<and> 1 < e"
  shows "format_tmdb_info tmdb_type season episode directors_str stars_str data plot =
           bindr (header_of tmdb_type season episode data) (\<lambda>header.
           bindr (genre_tags data) (\<lambda>tags.
           Inr (if tags = [] then header else header @ [CHR 0x0A, CHR 0x0A] @ tags)))"
proof -
  from assms have later: "later_episode season episode"
    by (auto simp: later_episode_def given_def num_def)
  show ?thesis
  proof (cases "header_of tmdb_type season episode data")
    case (Inl err)
    then show ?thesis by (simp add: format_tmdb_info_def)
  next
    case (Inr header)
    note h = header_shape [OF Inr]
    show ?thesis
    proof (cases "genre_tags data")
      case (Inl err)
      with Inr show ?thesis by (simp add: format_tmdb_info_def)
    next
      case tags: (Inr tags)
      show ?thesis
      proof (cases "tags = []")
        case True
        with h have "strip (header @ nl2 @ tags) = header"
          by (simp add: strip_blank_line nl2_def)
        with Inr tags True later show ?thesis by (simp add: format_tmdb_info_def)
      next
        case False
        with tags_shape [OF tags] have "\<not> is_space (last tags)" by simp
        with h False have "strip (header @ nl2 @ tags) = header @ nl2 @ tags"
          by (intro strip_id) (simp_all add: nl2_def)
        with Inr tags False later show ?thesis by (simp add: format_tmdb_info_def nl2_def)
      qed
    qed
  qed
qed

text \<open>
  Episode 2 of the series example, and season 2 of a series with no genre, both with a
  plot, stars and directors that do not appear.
\<close>

theorem later_episode_body_witness:
  "format_tmdb_info ''tv'' (Some 1) (Some 2) ''A Director'' ''A Star'' (JObj scifi_show) (JStr ''A plot.'')
     = Inr (''<b>Show S01E02</b> is now available!'' @ [CHR 0x0A, CHR 0x0A] @ ''#SciFiFantasy #Drama'')
   \<and> format_tmdb_info ''tv'' (Some 2) None ''A Director'' ''A Star''
         (JObj [(''name'', JStr ''Show''), (''genres'', JArr [])]) (JStr ''A plot.'')
     = Inr ''<b>Show Season 2</b> is now available!''"
proof -
  have a: "Some (1::int) = Some 1 \<and> (1::int) < 1 \<or> Some (2::int) = Some 2 \<and> (1::int) < 2"
    by simp
  have h: "header_of ''tv'' (Some 1) (Some 2) (JObj scifi_show) = Inr ''<b>Show S01E02</b> is now available!''"
    by code_simp
  have t: "genre_tags (JObj scifi_show) = Inr ''#SciFiFantasy #Drama''"
    by code_simp
  from later_episode_body [OF a, of "''tv''" "''A Director''" "''A Star''" "JObj scifi_show" "JStr ''A plot.''"]
  have 1: "format_tmdb_info ''tv'' (Some 1) (Some 2) ''A Director'' ''A Star'' (JObj scifi_show) (JStr ''A plot.'')
     = Inr (''<b>Show S01E02</b> is now available!'' @ [CHR 0x0A, CHR 0x0A] @ ''#SciFiFantasy #Drama'')"
    by (simp add: h t)
  let ?d = "JObj [(''name'', JStr ''Show''), (''genres'', JArr [])]"
  have b: "Some (2::int) = Some 2 \<and> (1::int) < 2 \<or> (None :: int option) = Some 0 \<and> (1::int) < 0"
    by simp
  have h': "header_of ''tv'' (Some 2) None ?d = Inr ''<b>Show Season 2</b> is now available!''"
    by code_simp
  have t': "genre_tags ?d = Inr []"
    by code_simp
  from later_episode_body [OF b, of "''tv''" "''A Director''" "''A Star''" ?d "JStr ''A plot.''"]
  have 2: "format_tmdb_info ''tv'' (Some 2) None ''A Director'' ''A Star'' ?d (JStr ''A plot.'')
     = Inr ''<b>Show Season 2</b> is now available!''"
    by (simp add: h' t')
  from 1 2 show ?thesis by simp
qed

text \<open>
  C4 as stated fails where the series has no genre: the message of season 2 is the header
  alone, with no blank line after it.
\<close>

theorem later_episode_no_genre_counterexample:
  "header_of ''tv'' (Some 2) None (JObj [(''name'', JStr ''Show''), (''genres'', JArr [])])
     = Inr ''<b>Show Season 2</b> is now available!''
   \<and> genre_tags (JObj [(''name'', JStr ''Show''), (''genres'', JArr [])]) = Inr []
   \<and> format_tmdb_info ''tv'' (Some 2) None ''Unknown'' ''Unknown''
         (JObj [(''name'', JStr ''Show''), (''genres'', JArr [])]) (JStr ''A plot.'')
       = Inr ''<b>Show Season 2</b> is now available!''
   \<and> format_tmdb_info ''tv'' (Some 2) None ''Unknown'' ''Unknown''
         (JObj [(''name'', JStr ''Show''), (''genres'', JArr [])]) (JStr ''A plot.'')
       \<noteq> Inr (''<b>Show Season 2</b> is now available!'' @ [CHR 0x0A, CHR 0x0A])"
  by code_simp

section \<open>The steps of the aggregation\<close>

lemma get_by_id_Populated:
  "get_by_id w tmdb_type tmdb_id season episode = Populated r \<longleftrightarrow>
   get_by_id_try w tmdb_type tmdb_id season episode = Inr r"
  by (simp add: get_by_id_def split: sum.splits)

lemma get_by_id_Degraded:
  "(\<exists>e. get_by_id w tmdb_type tmdb_id season episode = Degraded e) \<longleftrightarrow>
   (\<forall>r. get_by_id_try w tmdb_type tmdb_id season episode \<noteq> Inr r)"
  by (cases "get_by_id_try w tmdb_type tmdb_id season episode") (simp_all add: get_by_id_def)

text \<open>What a populated result says of the steps that led to it.\<close>

lemma get_by_id_try_steps:
  assumes "get_by_id_try w tmdb_type tmdb_id season episode = Inr r"
  shows "\<exists>detail_resp data credits detail_imdb_id imdb_id plot directors_str stars_str.
           http_get w (api_url w tmdb_type tmdb_id) = Inr detail_resp
         \<and> json_body detail_resp = Inr data
         \<and> get_trailer_url w tmdb_type tmdb_id = Inr (trailer_url r)
         \<and> extract_directors tmdb_type data credits = Inr (mongo_directors (mongo_dict r))
         \<and> extract_stars credits = Inr (mongo_stars (mongo_dict r))
         \<and> names_str (mongo_directors (mongo_dict r)) = Inr directors_str
         \<and> names_str (mongo_stars (mongo_dict r)) = Inr stars_str
         \<and> py_get data ''imdb_id'' JNull = Inr detail_imdb_id
         \<and> (if tmdb_type = ''tv'' \<and> \<not> truthy detail_imdb_id
             then bindr (py_get data ''id'' JNull) (get_tv_imdb_id w)
             else Inr detail_imdb_id) = Inr imdb_id
         \<and> resolve_plot w imdb_id data = Inr plot
         \<and> format_tmdb_info tmdb_type season episode directors_str stars_str data plot
             = Inr (message r)"
  using assms unfolding get_by_id_try_def gather_def
  apply (simp only: bindr_eq_Inr split_paired_Ex prod.case)
  apply (elim exE conjE)
  apply (simp only: sum.inject prod.inject)
  apply (elim conjE)
  apply hypsubst
  apply (simp only: announcement.select_convs mongo.select_convs)
  apply (intro exI conjI; (assumption | rule refl))
  done

text \<open>Evaluation runs a step to its value before it enters the steps after it.\<close>

lemma bindr_weak_cong: "m = m' \<Longrightarrow> bindr m f = bindr m' f"
  by simp

text \<open>
  The movie example in any world that answers the three core requests with the Dune
  detail and empty images and credits, whatever the three statuses are.
\<close>

lemma dune_result:
  assumes net:
    "http_get w (api_url w ''movie'' 7) = Inr \<lparr>status = s1, json_body = Inr (JObj dune)\<rparr>"
    "http_get w (images_url w ''movie'' 7) = Inr \<lparr>status = s2, json_body = Inr (JObj [])\<rparr>"
    "http_get w (credits_url w ''movie'' 7) = Inr \<lparr>status = s3, json_body = Inr (JObj [])\<rparr>"
    and trailer: "get_trailer_url w ''movie'' 7 = Inr JNull"
    and float: "float_of_int w 0 = Some ''0.0''" "round1 w ''0.0'' = ''0.0''"
  shows "get_by_id w ''movie'' 7 None None = Populated plain_result"
proof -
  have extracted:
    "get_poster_url (JObj dune) = Inr JNull"
    "get_backdrop_url (JObj []) = Inr JNull"
    "extract_directors ''movie'' (JObj dune) (JObj []) = Inr []"
    "extract_stars (JObj []) = Inr []"
    "names_str [] = Inr ''Unknown''"
    "extract_language (JObj dune) = Inr ''Unknown''"
    "extract_genres (JObj dune) = Inr []"
    "extract_release_date (JObj dune) = Inr (JStr ''2021-09-15'')"
    by code_simp+
  have plot:
    "py_get (JObj dune) ''imdb_id'' JNull = Inr JNull"
    "format_tmdb_info ''movie'' None None ''Unknown'' ''Unknown'' (JObj dune) (JStr [])
       = Inr (message plain_result)"
    by code_simp+
  have fields:
    "py_get (JObj dune) ''title'' JNull = Inr (JStr ''Dune'')"
    "py_get (JObj dune) ''vote_average'' (JInt 0) = Inr (JInt 0)"
    "py_get (JObj dune) ''overview'' JNull = Inr JNull"
    "py_get (JObj dune) ''overview'' (JStr []) = Inr (JStr [])"
    by code_simp+
  have resolved: "resolve_plot w JNull (JObj dune) = Inr (JStr [])"
    by (simp add: resolve_plot_def fields del: py_get.simps)
  have vote: "py_float w (JInt 0) = Inr ''0.0''"
    by (simp add: py_float_def float)
  have "get_by_id_try w ''movie'' 7 None None = Inr plain_result"
    unfolding get_by_id_try_def gather_def
    by (simp add: net trailer extracted plot fields resolved vote float plain_result_def
        del: py_get.simps cong: bindr_weak_cong)
  then show ?thesis by (simp add: get_by_id_def)
qed

lemma demo_float:
  "float_of_int (demo_world get plots) 0 = Some ''0.0''"
  "round1 (demo_world get plots) ''0.0'' = ''0.0''"
  by (simp_all add: demo_world_def str_int_def digit_char_def)

lemma plain_world_result:
  "get_by_id plain_world ''movie'' 7 None None = Populated plain_result"
proof -
  have net:
    "http_get plain_world (api_url plain_world ''movie'' 7)
       = Inr \<lparr>status = 200, json_body = Inr (JObj dune)\<rparr>"
    "http_get plain_world (images_url plain_world ''movie'' 7)
       = Inr \<lparr>status = 200, json_body = Inr (JObj [])\<rparr>"
    "http_get plain_world (credits_url plain_world ''movie'' 7)
       = Inr \<lparr>status = 200, json_body = Inr (JObj [])\<rparr>"
    "get_trailer_url plain_world ''movie'' 7 = Inr JNull"
    by code_simp+
  show ?thesis
    by (rule dune_result [OF net]) (simp_all add: plain_world_def demo_float)
qed

lemma trailer_404_result:
  "get_by_id trailer_404 ''movie'' 7 None None = Populated plain_result"
proof -
  have net:
    "http_get trailer_404 (api_url trailer_404 ''movie'' 7)
       = Inr \<lparr>status = 200, json_body = Inr (JObj dune)\<rparr>"
    "http_get trailer_404 (images_url trailer_404 ''movie'' 7)
       = Inr \<lparr>status = 200, json_body = Inr (JObj [])\<rparr>"
    "http_get trailer_404 (credits_url trailer_404 ''movie'' 7)
       = Inr \<lparr>status = 200, json_body = Inr (JObj [])\<rparr>"
    "get_trailer_url trailer_404 ''movie'' 7 = Inr JNull"
    by code_simp+
  show ?thesis
    by (rule dune_result [OF net]) (simp_all add: trailer_404_def demo_float)
qed

lemma external_down_result:
  "get_by_id external_down ''tv'' 5 (Some 1) (Some 1) = Degraded ClientError"
proof -
  have net:
    "http_get external_down (api_url external_down ''tv'' 5)
       = Inr \<lparr>status = 200, json_body = Inr (JObj scifi_show)\<rparr>"
    "http_get external_down (images_url external_down ''tv'' 5)
       = Inr \<lparr>status = 200, json_body = Inr (JObj [])\<rparr>"
    "http_get external_down (credits_url external_down ''tv'' 5)
       = Inr \<lparr>status = 200, json_body = Inr (JObj [])\<rparr>"
    by code_simp+
  have extracted:
    "get_poster_url (JObj scifi_show) = Inr JNull"
    "get_backdrop_url (JObj []) = Inr JNull"
    "get_trailer_url external_down ''tv'' 5 = Inr JNull"
    "extract_directors ''tv'' (JObj scifi_show) (JObj []) = Inr []"
    "extract_stars (JObj []) = Inr []"
    "names_str [] = Inr ''Unknown''"
    "extract_language (JObj scifi_show) = Inr ''Unknown''"
    "extract_genres (JObj scifi_show) = Inr [JStr ''Sci-Fi'', JStr ''Fantasy'', JStr ''Drama'']"
    "extract_release_date (JObj scifi_show) = Inr (JStr [])"
    by code_simp+
  have ident:
    "py_get (JObj scifi_show) ''imdb_id'' JNull = Inr JNull"
    "py_get (JObj scifi_show) ''id'' JNull = Inr JNull"
    "get_tv_imdb_id external_down JNull = Inl ClientError"
    by code_simp+
  have "get_by_id_try external_down ''tv'' 5 (Some 1) (Some 1) = Inl ClientError"
    unfolding get_by_id_try_def gather_def
    by (simp add: net extracted ident del: py_get.simps cong: bindr_weak_cong)
  then show ?thesis by (simp add: get_by_id_def)
qed


section \<open>The full body\<close>




section \<open>Failures of the auxiliary lookups\<close>

text \<open>
  C1, as the code has it. Neither the trailer lookup nor the lookup of the external
  identifier of a series handles an exception: when the videos request raises, and when
  the identifier request of a series whose detail has no identifier raises, the handlers
  of the aggregation catch it and the result is the degraded one. What the trailer lookup
  does absorb is a response whose status is not 200: the trailer is then absent and
  nothing is raised.
\<close>

theorem aux_failures_degrade:
  "(http_get w (videos_url w tmdb_type tmdb_id) = Inl e \<longrightarrow>
      (\<exists>e'. get_by_id w tmdb_type tmdb_id season episode = Degraded e'))
   \<and> (http_get w (api_url w ''tv'' tmdb_id) = Inr resp \<and> json_body resp = Inr (JObj kvs)
        \<and> \<not> truthy (case map_of kvs ''imdb_id'' of None \<Rightarrow> JNull | Some v \<Rightarrow> v)
        \<and> http_get w (external_ids_url w (case map_of kvs ''id'' of None \<Rightarrow> JNull | Some v \<Rightarrow> v))
            = Inl e \<longrightarrow>
      (\<exists>e'. get_by_id w ''tv'' tmdb_id season episode = Degraded e'))
   \<and> (http_get w (videos_url w tmdb_type tmdb_id) = Inr video_response
        \<and> status video_response \<noteq> 200 \<longrightarrow>
      get_trailer_url w tmdb_type tmdb_id = Inr JNull)"
proof (intro conjI impI)
  assume v: "http_get w (videos_url w tmdb_type tmdb_id) = Inl e"
  then have "get_trailer_url w tmdb_type tmdb_id = Inl e"
    by (simp add: get_trailer_url_def)
  then have "get_by_id_try w tmdb_type tmdb_id season episode \<noteq> Inr r" for r
    using get_by_id_try_steps [of w tmdb_type tmdb_id season episode r] by auto
  then show "\<exists>e'. get_by_id w tmdb_type tmdb_id season episode = Degraded e'"
    by (simp add: get_by_id_Degraded)
next
  assume a: "http_get w (api_url w ''tv'' tmdb_id) = Inr resp \<and> json_body resp = Inr (JObj kvs)
        \<and> \<not> truthy (case map_of kvs ''imdb_id'' of None \<Rightarrow> JNull | Some v \<Rightarrow> v)
        \<and> http_get w (external_ids_url w (case map_of kvs ''id'' of None \<Rightarrow> JNull | Some v \<Rightarrow> v))
            = Inl e"
  then have x: "get_tv_imdb_id w (case map_of kvs ''id'' of None \<Rightarrow> JNull | Some v \<Rightarrow> v) = Inl e"
    by (simp add: get_tv_imdb_id_def)
  have "get_by_id_try w ''tv'' tmdb_id season episode \<noteq> Inr r" for r
  proof
    assume "get_by_id_try w ''tv'' tmdb_id season episode = Inr r"
    from get_by_id_try_steps [OF this] a x show False by auto
  qed
  then show "\<exists>e'. get_by_id w ''tv'' tmdb_id season episode = Degraded e'"
    by (simp add: get_by_id_Degraded)
next
  assume "http_get w (videos_url w tmdb_type tmdb_id) = Inr video_response
        \<and> status video_response \<noteq> 200"
  then show "get_trailer_url w tmdb_type tmdb_id = Inr JNull"
    by (simp add: get_trailer_url_def)
qed

text \<open>
  The movie example with a videos request that raises, the series example with an
  identifier request that raises, and the movie example with a videos request answered
  404, where the result is the populated one with no trailer.
\<close>

theorem aux_failures_degrade_witness:
  "(\<exists>e'. get_by_id trailer_down ''movie'' 7 None None = Degraded e')
   \<and> (\<exists>e'. get_by_id external_down ''tv'' 5 (Some 1) (Some 1) = Degraded e')
   \<and> get_trailer_url trailer_404 ''movie'' 7 = Inr JNull
   \<and> get_by_id trailer_404 ''movie'' 7 None None = Populated plain_result
   \<and> trailer_url plain_result = JNull"
proof -
  have v: "http_get trailer_down (videos_url trailer_down ''movie'' 7) = Inl ClientError"
    by code_simp
  have d: "http_get external_down (api_url external_down ''tv'' 5)
             = Inr \<lparr>status = 200, json_body = Inr (JObj scifi_show)\<rparr>"
    by code_simp
  have b: "json_body \<lparr>status = 200, json_body = Inr (JObj scifi_show)\<rparr> = Inr (JObj scifi_show)"
    by simp
  have i: "\<not> truthy (case map_of scifi_show ''imdb_id'' of None \<Rightarrow> JNull | Some v \<Rightarrow> v)"
    by code_simp
  have x: "http_get external_down
             (external_ids_url external_down
                (case map_of scifi_show ''id'' of None \<Rightarrow> JNull | Some v \<Rightarrow> v)) = Inl ClientError"
    by code_simp
  have t: "http_get trailer_404 (videos_url trailer_404 ''movie'' 7)
             = Inr \<lparr>status = 404, json_body = Inr tmdb_error\<rparr>"
    by code_simp
  have s: "status \<lparr>status = 404, json_body = Inr tmdb_error\<rparr> \<noteq> 200"
    by simp
  from aux_failures_degrade [of trailer_down "''movie''" 7 ClientError None None]
    v have 1: "\<exists>e'. get_by_id trailer_down ''movie'' 7 None None = Degraded e'"
    by blast
  from aux_failures_degrade [of external_down "''tv''" 5 ClientError "Some 1" "Some 1"
      "\<lparr>status = 200, json_body = Inr (JObj scifi_show)\<rparr>" scifi_show]
    d b i x have 2: "\<exists>e'. get_by_id external_down ''tv'' 5 (Some 1) (Some 1) = Degraded e'"
    by blast
  from aux_failures_degrade [of trailer_404 "''movie''" 7 ClientError None None
      undefined undefined "\<lparr>status = 404, json_body = Inr tmdb_error\<rparr>"]
    t s have 3: "get_trailer_url trailer_404 ''movie'' 7 = Inr JNull"
    by blast
  have 4: "trailer_url plain_result = JNull"
    by (simp add: plain_result_def)
  from 1 2 3 4 trailer_404_result show ?thesis by blast
qed

text \<open>
  C1 as stated fails: with the three core requests answered, a videos request that raises
  gives the degraded result, not a populated one with no trailer; so does an identifier
  request that raises, for a series.
\<close>

theorem aux_failure_aborts_counterexample:
  "get_by_id trailer_down ''movie'' 7 None None = Degraded ClientError
   \<and> get_by_id external_down ''tv'' 5 (Some 1) (Some 1) = Degraded ClientError
   \<and> get_by_id plain_world ''movie'' 7 None None = Populated plain_result"
proof -
  have "get_by_id trailer_down ''movie'' 7 None None = Degraded ClientError"
    by code_simp
  then show ?thesis by (simp add: external_down_result plain_world_result)
qed

section \<open>The status of a response\<close>

lemma restatus_fields:
  "TMDB_API_KEY (restatus st w) = TMDB_API_KEY w"
  "imdb_plot (restatus st w) = imdb_plot w"
  "float_of_int (restatus st w) = float_of_int w"
  "float_of_str (restatus st w) = float_of_str w"
  "round1 (restatus st w) = round1 w"
  "http_get (restatus st w) url =
     (case http_get w url of Inl e \<Rightarrow> Inl e | Inr r \<Rightarrow> Inr (r\<lparr>status := st url\<rparr>))"
  by (simp_all add: restatus_def)

lemma restatus_urls:
  "api_url (restatus st w) tmdb_type tmdb_id = api_url w tmdb_type tmdb_id"
  "images_url (restatus st w) tmdb_type tmdb_id = images_url w tmdb_type tmdb_id"
  "credits_url (restatus st w) tmdb_type tmdb_id = credits_url w tmdb_type tmdb_id"
  "videos_url (restatus st w) tmdb_type tmdb_id = videos_url w tmdb_type tmdb_id"
  "external_ids_url (restatus st w) tv_id = external_ids_url w tv_id"
  by (simp_all add: api_url_def images_url_def credits_url_def videos_url_def
      external_ids_url_def restatus_fields)

lemma restatus_get_tv_imdb_id: "get_tv_imdb_id (restatus st w) = get_tv_imdb_id w"
proof
  fix tv_id
  show "get_tv_imdb_id (restatus st w) tv_id = get_tv_imdb_id w tv_id"
    by (cases "http_get w (external_ids_url w tv_id)")
       (simp_all add: get_tv_imdb_id_def restatus_urls restatus_fields)
qed

lemma restatus_resolve_plot: "resolve_plot (restatus st w) imdb_id data = resolve_plot w imdb_id data"
  by (cases imdb_id)
     (simp_all add: resolve_plot_def get_imdb_plot_def get_imdb_plot_try_def restatus_fields)

lemma restatus_py_float: "py_float (restatus st w) = py_float w"
proof
  fix v
  show "py_float (restatus st w) v = py_float w v"
    by (cases v) (simp_all add: py_float_def restatus_fields)
qed

lemma restatus_get_trailer_url:
  assumes "\<forall>r. http_get w (videos_url w tmdb_type tmdb_id) = Inr r \<longrightarrow>
             (st (videos_url w tmdb_type tmdb_id) = 200) = (status r = 200)"
  shows "get_trailer_url (restatus st w) tmdb_type tmdb_id = get_trailer_url w tmdb_type tmdb_id"
  using assms
  by (cases "http_get w (videos_url w tmdb_type tmdb_id)")
     (simp_all add: get_trailer_url_def restatus_urls restatus_fields)

lemma restatus_get_by_id_try:
  assumes "\<forall>r. http_get w (videos_url w tmdb_type tmdb_id) = Inr r \<longrightarrow>
             (st (videos_url w tmdb_type tmdb_id) = 200) = (status r = 200)"
  shows "get_by_id_try (restatus st w) tmdb_type tmdb_id season episode
           = get_by_id_try w tmdb_type tmdb_id season episode"
proof -
  have trailer: "get_trailer_url (restatus st w) tmdb_type tmdb_id
                   = get_trailer_url w tmdb_type tmdb_id"
    using assms by (rule restatus_get_trailer_url [of w tmdb_type tmdb_id st])
  note same = restatus_urls restatus_get_tv_imdb_id restatus_resolve_plot restatus_py_float
    trailer restatus_fields
  show ?thesis
  proof (cases "http_get w (api_url w tmdb_type tmdb_id)")
    case (Inl e)
    then show ?thesis by (simp add: get_by_id_try_def gather_def same)
  next
    case a: (Inr a)
    show ?thesis
    proof (cases "http_get w (images_url w tmdb_type tmdb_id)")
      case (Inl e)
      with a show ?thesis by (simp add: get_by_id_try_def gather_def same)
    next
      case b: (Inr b)
      show ?thesis
      proof (cases "http_get w (credits_url w tmdb_type tmdb_id)")
        case (Inl e)
        with a b show ?thesis by (simp add: get_by_id_try_def gather_def same)
      next
        case c: (Inr c)
        with a b show ?thesis
          by (simp add: get_by_id_try_def gather_def same cong: if_cong)
      qed
    qed
  qed
qed

text \<open>
  C10, as the code has it. The status of the three core responses is never read: whatever
  status every response is given, as long as the videos response stays 200 or stays
  other than 200, the result of the aggregation is the same. So an error-status response
  whose body parses as JSON goes through extraction as a 200 response with that body
  does, and the result is populated exactly when it is for that body with status 200.
  The trailer lookup is the one place where a status is tested: with 200 its response is
  decoded and searched, with any other status it is absent and the body is not read.
\<close>

theorem status_never_inspected:
  assumes "\<forall>r. http_get w (videos_url w tmdb_type tmdb_id) = Inr r \<longrightarrow>
             (st (videos_url w tmdb_type tmdb_id) = 200) = (status r = 200)"
  shows "get_by_id (restatus st w) tmdb_type tmdb_id season episode
           = get_by_id w tmdb_type tmdb_id season episode
         \<and> (\<forall>r. http_get w (videos_url w tmdb_type tmdb_id) = Inr r \<longrightarrow>
               get_trailer_url w tmdb_type tmdb_id =
                 (if status r = 200
                  then bindr (json_body r) (\<lambda>data.
                       bindr (py_get data ''results'' (JArr [])) (\<lambda>results.
                       bindr (py_iter results) first_trailer))
                  else Inr JNull))"
proof
  show "get_by_id (restatus st w) tmdb_type tmdb_id season episode
          = get_by_id w tmdb_type tmdb_id season episode"
    using assms
    by (simp add: get_by_id_def
        restatus_get_by_id_try [of w tmdb_type tmdb_id st season episode])
next
  show "\<forall>r. http_get w (videos_url w tmdb_type tmdb_id) = Inr r \<longrightarrow>
               get_trailer_url w tmdb_type tmdb_id =
                 (if status r = 200
                  then bindr (json_body r) (\<lambda>data.
                       bindr (py_get data ''results'' (JArr [])) (\<lambda>results.
                       bindr (py_iter results) first_trailer))
                  else Inr JNull)"
    by (simp add: get_trailer_url_def)
qed

text \<open>
  The movie example with every core response answered 404, which gives the populated
  result of the status 200; and the trailer of a videos response, found when the status
  is 200 and absent when it is 404.
\<close>

theorem status_never_inspected_witness:
  "get_by_id (restatus (\<lambda>url. if contains_sub ''/videos?'' url then 200 else 404) plain_world)
     ''movie'' 7 None None = Populated plain_result
   \<and> get_trailer_url (trailer_world 200) ''movie'' 7
       = Inr (JStr ''https://www.youtube.com/watch?v=k1'')
   \<and> get_trailer_url (trailer_world 404) ''movie'' 7 = Inr JNull"
proof -
  let ?st = "\<lambda>url. if contains_sub ''/videos?'' url then 200 else (404 :: int)"
  have v: "http_get plain_world (videos_url plain_world ''movie'' 7)
             = Inr \<lparr>status = 200, json_body = Inr (JObj [(''results'', JArr [])])\<rparr>"
    by code_simp
  have u: "contains_sub ''/videos?'' (videos_url plain_world ''movie'' 7)"
    by code_simp
  have a: "\<forall>r. http_get plain_world (videos_url plain_world ''movie'' 7) = Inr r \<longrightarrow>
             (?st (videos_url plain_world ''movie'' 7) = 200) = (status r = 200)"
    by (simp add: v u)
  from status_never_inspected [of plain_world "''movie''" 7 ?st None None] a
  have 1: "get_by_id (restatus ?st plain_world) ''movie'' 7 None None = Populated plain_result"
    by (simp add: plain_world_result)
  have t: "http_get (trailer_world 200) (videos_url (trailer_world 200) ''movie'' 7)
             = Inr \<lparr>status = 200, json_body = Inr one_trailer\<rparr>"
    "http_get (trailer_world 404) (videos_url (trailer_world 404) ''movie'' 7)
             = Inr \<lparr>status = 404, json_body = Inr one_trailer\<rparr>"
    by code_simp+
  have f: "bindr (py_get one_trailer ''results'' (JArr [])) (\<lambda>results.
             bindr (py_iter results) first_trailer)
           = Inr (JStr ''https://www.youtube.com/watch?v=k1'')"
    by code_simp
  have 2: "get_trailer_url (trailer_world 200) ''movie'' 7
             = Inr (JStr ''https://www.youtube.com/watch?v=k1'')"
    using status_never_inspected [of "trailer_world 200" "''movie''" 7 "\<lambda>url. 200" None None] t(1) f
    by simp
  have 3: "get_trailer_url (trailer_world 404) ''movie'' 7 = Inr JNull"
    using status_never_inspected [of "trailer_world 404" "''movie''" 7 "\<lambda>url. 404" None None] t(2)
    by simp
  from 1 2 3 show ?thesis by simp
qed

text \<open>
  C10 as stated fails: a body that parses as JSON need not give a populated result. A
  detail answered by a JSON array gives the degraded result, with status 200 as with 404.
\<close>

theorem json_body_degraded_counterexample:
  "json_body \<lparr>status = 404, json_body = Inr (JArr [])\<rparr> = Inr (JArr [])
   \<and> get_by_id (array_world 200) ''movie'' 7 None None = Degraded AttributeError
   \<and> get_by_id (array_world 404) ''movie'' 7 None None = Degraded AttributeError"
  by code_simp

section \<open>The year filter of the search\<close>

lemma map_of_key: "map_of kvs k = Some v \<Longrightarrow> k \<in> fst ` set kvs"
  by (force dest: map_of_SomeD)

lemma year_matches_str:
  "map_of kvs field = Some (JStr d) \<Longrightarrow>
   year_matches field year (JObj kvs) = Inr (d \<noteq> [] \<and> take 4 d = py_str year)"
  by (auto simp: year_matches_def map_of_key)

lemma year_matches_absent:
  "field \<notin> fst ` set kvs \<Longrightarrow> year_matches field year (JObj kvs) = Inr False"
  by (simp add: year_matches_def)

lemma filterM_none:
  "\<forall>x\<in>set xs. p x \<noteq> Inr True \<Longrightarrow> filterM p xs = Inr [] \<or> (\<exists>e. filterM p xs = Inl e)"
  by (induction xs) (auto split: sum.splits)

lemma search_resultsD:
  assumes "search_results w kind name = Some rs"
  shows "\<exists>resp kvs. http_get w (search_url w kind name) = Inr resp
           \<and> json_body resp = Inr (JObj kvs) \<and> map_of kvs ''results'' = Some (JArr rs)"
  using assms
  by (auto simp: search_results_def split: sum.splits json.splits option.splits)

lemma search_try_no_match:
  assumes "truthy year" and "search_results w kind name = Some rs"
    and "\<forall>r\<in>set rs. year_matches field year r \<noteq> Inr True"
  shows "search_try w kind field name year = Inr None
         \<or> (\<exists>e. search_try w kind field name year = Inl e)"
proof -
  from search_resultsD [OF assms(2)] obtain resp kvs where
    r: "http_get w (search_url w kind name) = Inr resp" "json_body resp = Inr (JObj kvs)"
       "map_of kvs ''results'' = Some (JArr rs)"
    by blast
  from filterM_none [OF assms(3)] show ?thesis
  proof
    assume "filterM (year_matches field year) rs = Inr []"
    with r assms(1) show ?thesis by (simp add: search_try_def)
  next
    assume "\<exists>e. filterM (year_matches field year) rs = Inl e"
    then obtain e where "filterM (year_matches field year) rs = Inl e" ..
    with r assms(1) show ?thesis by (simp add: search_try_def)
  qed
qed

lemma search_try_no_year:
  assumes "\<not> truthy year" and "search_results w kind name = Some (r # rs)"
    and "py_item r ''id'' = Inr i"
  shows "search_try w kind field name year = Inr (Some \<lparr>found_id = i, media_type = kind\<rparr>)"
proof -
  from search_resultsD [OF assms(2)] obtain resp kvs where
    "http_get w (search_url w kind name) = Inr resp" "json_body resp = Inr (JObj kvs)"
    "map_of kvs ''results'' = Some (JArr (r # rs))"
    by blast
  with assms(1,3) show ?thesis by (simp add: search_try_def)
qed


lemma str_2010: "py_str (JInt 2010) = ''2010''"
  by (simp add: py_str_def str_int_def digit_char_def)

lemma two_results_found: "search_results search_world kind ''Inception'' = Some two_results"
  by (simp add: search_results_def search_world_def demo_world_def search_url_def respond_def)

lemma two_results_2010:
  "\<forall>r\<in>set two_results. year_matches ''release_date'' (JInt 2010) r \<noteq> Inr True"
  "\<forall>r\<in>set two_results. year_matches ''first_air_date'' (JInt 2010) r \<noteq> Inr True"
  by (simp_all add: two_results_def year_matches_str str_2010)



section \<open>The plot\<close>

lemma split_dcolon_none: "\<not> contains_sub ''::'' s \<Longrightarrow> split_dcolon s = [s]"
  by (induction s rule: split_dcolon.induct) (auto split: list.splits)

lemma split_dcolon_first:
  "\<not> contains_sub ''::'' (u @ '':'') \<Longrightarrow> \<exists>rest. split_dcolon (u @ ''::'' @ v) = u # rest"
proof (induction u)
  case Nil
  then show ?case by simp
next
  case (Cons a u)
  then obtain rest where r: "split_dcolon (u @ ''::'' @ v) = u # rest"
    by auto
  obtain b s where bs: "u @ ''::'' @ v = b # s"
    by (cases u) auto
  have "\<not> (a = CHR '':'' \<and> b = CHR '':'')"
    using Cons.prems bs by (cases u) auto
  with r bs show ?case by auto
qed

lemma get_imdb_plot_first:
  assumes "imdb_plot w (remove_tt i) = Inr (Some (p # ps))"
    and "split_dcolon p = q # rest"
  shows "get_imdb_plot w (JStr i) = strip q"
  using assms by (simp add: get_imdb_plot_def get_imdb_plot_try_def)

lemma resolve_plot_dict:
  "resolve_plot w imdb_id (JObj kvs) =
     Inr (if truthy imdb_id \<and> get_imdb_plot w imdb_id \<noteq> [] then JStr (get_imdb_plot w imdb_id)
          else (case map_of kvs ''overview'' of None \<Rightarrow> JStr [] | Some v \<Rightarrow> v))"
  by (simp add: resolve_plot_def Let_def)

text \<open>Every step that a populated result went through.\<close>

lemma get_by_id_try_all_steps:
  assumes "get_by_id_try w tmdb_type tmdb_id season episode = Inr r"
  shows "\<exists>detail_resp images_resp credits_resp data movie_images credits poster backdrop trailer
            directors_list stars_list directors_str stars_str language genres release_date
            detail_imdb_id imdb_id plot msg title vote story.
           http_get w (api_url w tmdb_type tmdb_id) = Inr detail_resp
         \<and> http_get w (images_url w tmdb_type tmdb_id) = Inr images_resp
         \<and> http_get w (credits_url w tmdb_type tmdb_id) = Inr credits_resp
         \<and> json_body detail_resp = Inr data
         \<and> json_body images_resp = Inr movie_images
         \<and> json_body credits_resp = Inr credits
         \<and> get_poster_url data = Inr poster
         \<and> get_backdrop_url movie_images = Inr backdrop
         \<and> get_trailer_url w tmdb_type tmdb_id = Inr trailer
         \<and> extract_directors tmdb_type data credits = Inr directors_list
         \<and> extract_stars credits = Inr stars_list
         \<and> names_str directors_list = Inr directors_str
         \<and> names_str stars_list = Inr stars_str
         \<and> extract_language data = Inr language
         \<and> extract_genres data = Inr genres
         \<and> extract_release_date data = Inr release_date
         \<and> py_get data ''imdb_id'' JNull = Inr detail_imdb_id
         \<and> (if tmdb_type = ''tv'' \<and> \<not> truthy detail_imdb_id
             then bindr (py_get data ''id'' JNull) (get_tv_imdb_id w)
             else Inr detail_imdb_id) = Inr imdb_id
         \<and> resolve_plot w imdb_id data = Inr plot
         \<and> format_tmdb_info tmdb_type season episode directors_str stars_str data plot = Inr msg
         \<and> bindr (py_get data ''title'' JNull) (\<lambda>t.
              if truthy t then Inr t else py_get data ''name'' JNull) = Inr title
         \<and> bindr (py_get data ''vote_average'' (JInt 0)) (py_float w) = Inr vote
         \<and> (if truthy plot then Inr plot else py_get data ''overview'' JNull) = Inr story"
  using assms unfolding get_by_id_try_def gather_def
  apply (simp only: bindr_eq_Inr split_paired_Ex prod.case)
  apply (elim exE conjE)
  apply (simp only: sum.inject prod.inject)
  apply (elim conjE)
  apply hypsubst
  apply (intro exI conjI; (assumption | rule refl))
  done

lemma plots_urls:
  "api_url (w\<lparr>imdb_plot := plots\<rparr>) tmdb_type tmdb_id = api_url w tmdb_type tmdb_id"
  "images_url (w\<lparr>imdb_plot := plots\<rparr>) tmdb_type tmdb_id = images_url w tmdb_type tmdb_id"
  "credits_url (w\<lparr>imdb_plot := plots\<rparr>) tmdb_type tmdb_id = credits_url w tmdb_type tmdb_id"
  "get_trailer_url (w\<lparr>imdb_plot := plots\<rparr>) tmdb_type tmdb_id = get_trailer_url w tmdb_type tmdb_id"
  by (simp_all add: api_url_def images_url_def credits_url_def get_trailer_url_def videos_url_def)

lemma plots_get_tv_imdb_id: "get_tv_imdb_id (w\<lparr>imdb_plot := plots\<rparr>) = get_tv_imdb_id w"
  by (rule ext) (simp add: get_tv_imdb_id_def external_ids_url_def)

lemma plots_py_float: "py_float (w\<lparr>imdb_plot := plots\<rparr>) = py_float w"
proof
  fix v
  show "py_float (w\<lparr>imdb_plot := plots\<rparr>) v = py_float w v"
    by (cases v) (simp_all add: py_float_def)
qed

lemma format_any_plot:
  "format_tmdb_info tmdb_type season episode directors_str stars_str data plot = Inr m \<Longrightarrow>
   \<exists>m'. format_tmdb_info tmdb_type season episode directors_str stars_str data plot' = Inr m'"
proof -
  assume "format_tmdb_info tmdb_type season episode directors_str stars_str data plot = Inr m"
  then obtain header tags where
    h: "header_of tmdb_type season episode data = Inr header" and
    t: "genre_tags data = Inr tags"
    unfolding format_tmdb_info_def by (simp only: bindr_eq_Inr) blast
  show ?thesis
    unfolding format_tmdb_info_def
    by (cases "later_episode season episode") (simp_all only: h t bindr_Inr if_True if_False, blast+)
qed

text \<open>Whatever the secondary source does, a populated result stays a populated result.\<close>

lemma plot_source_not_fatal:
  assumes "get_by_id_try w tmdb_type tmdb_id season episode = Inr r"
  shows "\<exists>r'. get_by_id_try (w\<lparr>imdb_plot := plots\<rparr>) tmdb_type tmdb_id season episode = Inr r'"
proof -
  from get_by_id_try_all_steps [OF assms]
  obtain detail_resp images_resp credits_resp data movie_images credits poster backdrop trailer
    directors_list stars_list directors_str stars_str language genres release_date
    detail_imdb_id imdb_id plot msg title vote story
    where all:
      "http_get w (api_url w tmdb_type tmdb_id) = Inr detail_resp
       \<and> http_get w (images_url w tmdb_type tmdb_id) = Inr images_resp
       \<and> http_get w (credits_url w tmdb_type tmdb_id) = Inr credits_resp
       \<and> json_body detail_resp = Inr data
       \<and> json_body images_resp = Inr movie_images
       \<and> json_body credits_resp = Inr credits
       \<and> get_poster_url data = Inr poster
       \<and> get_backdrop_url movie_images = Inr backdrop
       \<and> get_trailer_url w tmdb_type tmdb_id = Inr trailer
       \<and> extract_directors tmdb_type data credits = Inr directors_list
       \<and> extract_stars credits = Inr stars_list
       \<and> names_str directors_list = Inr directors_str
       \<and> names_str stars_list = Inr stars_str
       \<and> extract_language data = Inr language
       \<and> extract_genres data = Inr genres
       \<and> extract_release_date data = Inr release_date
       \<and> py_get data ''imdb_id'' JNull = Inr detail_imdb_id
       \<and> (if tmdb_type = ''tv'' \<and> \<not> truthy detail_imdb_id
           then bindr (py_get data ''id'' JNull) (get_tv_imdb_id w)
           else Inr detail_imdb_id) = Inr imdb_id
       \<and> resolve_plot w imdb_id data = Inr plot
       \<and> format_tmdb_info tmdb_type season episode directors_str stars_str data plot = Inr msg
       \<and> bindr (py_get data ''title'' JNull) (\<lambda>t.
            if truthy t then Inr t else py_get data ''name'' JNull) = Inr title
       \<and> bindr (py_get data ''vote_average'' (JInt 0)) (py_float w) = Inr vote
       \<and> (if truthy plot then Inr plot else py_get data ''overview'' JNull) = Inr story"
    by (elim exE) (rule that)
  have steps:
      "http_get w (api_url w tmdb_type tmdb_id) = Inr detail_resp"
      "http_get w (images_url w tmdb_type tmdb_id) = Inr images_resp"
      "http_get w (credits_url w tmdb_type tmdb_id) = Inr credits_resp"
      "json_body detail_resp = Inr data"
      "json_body images_resp = Inr movie_images"
      "json_body credits_resp = Inr credits"
      "get_poster_url data = Inr poster"
      "get_backdrop_url movie_images = Inr backdrop"
      "get_trailer_url w tmdb_type tmdb_id = Inr trailer"
      "extract_directors tmdb_type data credits = Inr directors_list"
      "extract_stars credits = Inr stars_list"
      "names_str directors_list = Inr directors_str"
      "names_str stars_list = Inr stars_str"
      "extract_language data = Inr language"
      "extract_genres data = Inr genres"
      "extract_release_date data = Inr release_date"
      "py_get data ''imdb_id'' JNull = Inr detail_imdb_id"
      "(if tmdb_type = ''tv'' \<and> \<not> truthy detail_imdb_id
        then bindr (py_get data ''id'' JNull) (get_tv_imdb_id w)
        else Inr detail_imdb_id) = Inr imdb_id"
      "bindr (py_get data ''title'' JNull) (\<lambda>t.
         if truthy t then Inr t else py_get data ''name'' JNull) = Inr title"
      "bindr (py_get data ''vote_average'' (JInt 0)) (py_float w) = Inr vote"
    and old: "resolve_plot w imdb_id data = Inr plot"
      "format_tmdb_info tmdb_type season episode directors_str stars_str data plot = Inr msg"
    by (insert all, (elim conjE, assumption)+)
  from steps(17) obtain kvs where data: "data = JObj kvs"
    by (cases data) simp_all
  obtain plot' where p: "resolve_plot (w\<lparr>imdb_plot := plots\<rparr>) imdb_id data = Inr plot'"
    by (simp add: data resolve_plot_dict)
  from format_any_plot [OF old(2)] obtain msg' where
    m: "format_tmdb_info tmdb_type season episode directors_str stars_str data plot' = Inr msg'"
    by blast
  obtain story' where
    s: "(if truthy plot' then Inr plot' else py_get data ''overview'' JNull) = Inr story'"
    by (cases "truthy plot'") (simp_all add: data)
  have tv: "(if tmdb_type = ''tv'' \<and> \<not> truthy detail_imdb_id
        then bindr (py_get data ''id'' JNull) (get_tv_imdb_id (w\<lparr>imdb_plot := plots\<rparr>))
        else Inr detail_imdb_id) = Inr imdb_id"
    using steps(18) by (simp only: plots_get_tv_imdb_id)
  have vote: "bindr (py_get data ''vote_average'' (JInt 0)) (py_float (w\<lparr>imdb_plot := plots\<rparr>))
        = Inr vote"
    using steps(20) by (simp only: plots_py_float)
  show ?thesis
    unfolding get_by_id_try_def gather_def
    by (simp add: steps p m s tv vote plots_urls cong: bindr_weak_cong)
qed




end
